theory Spec2Isabelle
  imports Complex_Main "HOL-Library.Sublist"
begin

section \<open>Python text and containers\<close>

text \<open>
  The GURT client is Python. A \<open>bytes\<close> value is a list of 8-bit characters, and a
  \<open>str\<close> value is represented by its UTF-8 encoding, so that \<open>encode('utf-8')\<close> is the
  identity and \<open>decode('utf-8')\<close> is the check \<open>decode_utf8\<close> below. The text functions
  (\<open>split\<close>, \<open>strip\<close>, \<open>lower\<close>, \<open>int\<close>, ...) are modelled on ASCII text, where one
  character is one byte; every theorem about text assumes that the text is ASCII.
\<close>

definition ascii_char :: "char \<Rightarrow> bool" where
  "ascii_char c \<longleftrightarrow> of_char c < (128 :: int)"

definition ascii :: "string \<Rightarrow> bool" where
  "ascii s \<longleftrightarrow> list_all ascii_char s"

definition CR :: char where "CR = CHR 0x0D"
definition LF :: char where "LF = CHR 0x0A"

text \<open>\<open>str.isspace\<close> on ASCII: TAB, LF, VT, FF, CR, the separators FS GS RS US, and space.\<close>

definition is_space :: "char \<Rightarrow> bool" where
  "is_space c \<longleftrightarrow> c \<in> set [CHR 0x09, CHR 0x0A, CHR 0x0B, CHR 0x0C, CHR 0x0D,
                           CHR 0x1C, CHR 0x1D, CHR 0x1E, CHR 0x1F, CHR 0x20]"

definition upper_letters :: string where "upper_letters = ''ABCDEFGHIJKLMNOPQRSTUVWXYZ''"
definition lower_letters :: string where "lower_letters = ''abcdefghijklmnopqrstuvwxyz''"
definition digits :: string where "digits = ''0123456789''"

definition lower_char :: "char \<Rightarrow> char" where
  "lower_char c = (case map_of (zip upper_letters lower_letters) c of Some d \<Rightarrow> d | None \<Rightarrow> c)"

text \<open>\<open>s.lower()\<close>\<close>
definition lower :: "string \<Rightarrow> string" where
  "lower s = map lower_char s"

text \<open>\<open>s.strip()\<close>, \<open>s.lstrip()\<close>\<close>
definition lstrip :: "string \<Rightarrow> string" where
  "lstrip s = dropWhile is_space s"

definition strip :: "string \<Rightarrow> string" where
  "strip s = rev (dropWhile is_space (rev (dropWhile is_space s)))"

text \<open>\<open>s.startswith(p)\<close>\<close>
definition startswith :: "string \<Rightarrow> string \<Rightarrow> bool" where
  "startswith s p = prefix p s"

text \<open>
  \<open>s.partition(sep)\<close> at the first occurrence of a non-empty \<open>sep\<close>: the text before it and
  the text after it, or \<open>None\<close> when \<open>sep\<close> does not occur.
\<close>
fun split_once :: "string \<Rightarrow> string \<Rightarrow> (string \<times> string) option" where
  "split_once sep [] = None"
| "split_once sep (c # cs) =
     (if prefix sep (c # cs) then Some ([], drop (length sep) (c # cs))
      else map_option (\<lambda>(a, b). (c # a, b)) (split_once sep cs))"

text \<open>\<open>sep in s\<close>\<close>
definition contains :: "string \<Rightarrow> string \<Rightarrow> bool" where
  "contains sep s \<longleftrightarrow> split_once sep s \<noteq> None"

text \<open>\<open>s.split(sep, maxsplit)\<close> for a non-empty \<open>sep\<close> and \<open>maxsplit \<ge> 0\<close>\<close>
fun splitn :: "nat \<Rightarrow> string \<Rightarrow> string \<Rightarrow> string list" where
  "splitn 0 sep s = [s]"
| "splitn (Suc n) sep s =
     (case split_once sep s of None \<Rightarrow> [s] | Some (a, b) \<Rightarrow> a # splitn n sep b)"

text \<open>
  \<open>s.split(sep)\<close> for a non-empty \<open>sep\<close>: no bound on the number of splits; a text of
  \<open>n\<close> characters has at most \<open>n\<close> occurrences of \<open>sep\<close>.
\<close>
definition split :: "string \<Rightarrow> string \<Rightarrow> string list" where
  "split sep s = splitn (length s) sep s"

text \<open>\<open>s.split()\<close>: maximal runs of characters that are not whitespace\<close>
function split_ws :: "string \<Rightarrow> string list" where
  "split_ws s =
     (let t = dropWhile is_space s
      in if t = [] then []
         else takeWhile (\<lambda>c. \<not> is_space c) t # split_ws (dropWhile (\<lambda>c. \<not> is_space c) t))"
  by pat_completeness auto
termination
proof (relation "measure length")
  fix s t :: string
  assume t: "t = dropWhile is_space s" and ne: "t \<noteq> []"
  have "length (dropWhile (\<lambda>c. \<not> is_space c) t) < length t"
  proof (cases t)
    case Nil
    with ne show ?thesis by simp
  next
    case (Cons c cs)
    with t have "\<not> is_space c"
      by (metis hd_dropWhile list.sel(1) list.distinct(1))
    with Cons show ?thesis
      by (simp add: le_imp_less_Suc length_dropWhile_le)
  qed
  also have "length t \<le> length s"
    using t by (simp add: length_dropWhile_le)
  finally show "(dropWhile (\<lambda>c. \<not> is_space c) t, s) \<in> measure length"
    by simp
qed simp

declare split_ws.simps [simp del]

text \<open>\<open>str(n)\<close> for \<open>n \<ge> 0\<close>\<close>
fun str_nat :: "nat \<Rightarrow> string" where
  "str_nat n = (if n < 10 then [digits ! n] else str_nat (n div 10) @ [digits ! (n mod 10)])"

declare str_nat.simps [simp del]

text \<open>\<open>str(i)\<close>\<close>
definition str_int :: "int \<Rightarrow> string" where
  "str_int i = (if i < 0 then CHR ''-'' # str_nat (nat (- i)) else str_nat (nat i))"

definition is_digit :: "char \<Rightarrow> bool" where
  "is_digit c \<longleftrightarrow> c \<in> set digits"

definition digit_val :: "char \<Rightarrow> int" where
  "digit_val c =
     (case map_of (zip digits [0, 1, 2, 3, 4, 5, 6, 7, 8, 9]) c of Some d \<Rightarrow> d | None \<Rightarrow> 0)"

text \<open>
  The digits of an integer literal as \<open>int()\<close> reads them: decimal digits, where a single
  underscore may stand between two digits; \<open>seen\<close> tells whether the previous character
  was a digit.
\<close>
fun int_digits :: "int \<Rightarrow> bool \<Rightarrow> string \<Rightarrow> int option" where
  "int_digits acc seen [] = (if seen then Some acc else None)"
| "int_digits acc seen (c # cs) =
     (if is_digit c then int_digits (10 * acc + digit_val c) True cs
      else if c = CHR ''_'' \<and> seen then int_digits acc False cs
      else None)"

text \<open>
  The whitespace that \<open>int()\<close> skips around an ASCII literal: space, TAB, LF, VT, FF, CR
  (not the separators FS GS RS US).
\<close>
definition is_c_space :: "char \<Rightarrow> bool" where
  "is_c_space c \<longleftrightarrow> c \<in> set [CHR 0x20, CHR 0x09, CHR 0x0A, CHR 0x0B, CHR 0x0C, CHR 0x0D]"

text \<open>
  \<open>int(s)\<close> on ASCII text: surrounding whitespace is dropped, one sign is allowed, and a
  literal of more than 4300 digits is refused (the default of
  \<open>sys.set_int_max_str_digits\<close>); \<open>None\<close> stands for the \<open>ValueError\<close>.
\<close>
definition py_int :: "string \<Rightarrow> int option" where
  "py_int s =
     (case rev (dropWhile is_c_space (rev (dropWhile is_c_space s))) of
        [] \<Rightarrow> None
      | c # cs \<Rightarrow>
          (let literal = (if c = CHR ''-'' \<or> c = CHR ''+'' then cs else c # cs)
           in if int (length (filter is_digit literal)) > 4300 then None
              else if c = CHR ''-'' then map_option uminus (int_digits 0 False literal)
              else int_digits 0 False literal))"

definition hex_digits :: string where "hex_digits = ''0123456789abcdef''"

text \<open>Two lower-case hexadecimal digits for a byte (\<open>'%02x'\<close>).\<close>
definition hex2 :: "int \<Rightarrow> string" where
  "hex2 n = [hex_digits ! nat ((n div 16) mod 16), hex_digits ! nat (n mod 16)]"

text \<open>
  \<open>repr(s)\<close> for ASCII text: in single quotes, or in double quotes when the text has a
  single quote and no double quote; backslash, the quote, TAB, LF and CR are escaped, and
  the other control characters are written \<open>\xNN\<close>.
\<close>
definition repr_char :: "char \<Rightarrow> char \<Rightarrow> string" where
  "repr_char quote c =
     (if c = CHR 0x5C then [CHR 0x5C, CHR 0x5C]
      else if c = quote then [CHR 0x5C, quote]
      else if c = CHR 0x09 then [CHR 0x5C, CHR ''t'']
      else if c = CHR 0x0A then [CHR 0x5C, CHR ''n'']
      else if c = CHR 0x0D then [CHR 0x5C, CHR ''r'']
      else if of_char c < (32 :: int) \<or> of_char c = (127 :: int)
      then [CHR 0x5C, CHR ''x''] @ hex2 (of_char c)
      else [c])"

definition py_repr :: "string \<Rightarrow> string" where
  "py_repr s =
     (let quote = (if CHR 0x27 \<in> set s \<and> CHR 0x22 \<notin> set s then CHR 0x22 else CHR 0x27)
      in [quote] @ concat (map (repr_char quote) s) @ [quote])"

text \<open>
  \<open>bytes.decode('utf-8')\<close>. The scan gives the first ill-formed sequence, if any: its
  start, its end, and the reason that the \<open>UnicodeDecodeError\<close> names. A lead byte is
  followed by one to three continuation bytes (0x80 to 0xBF), where the second byte is
  further restricted after the lead bytes 0xE0, 0xED, 0xF0 and 0xF4.
\<close>
definition is_cont :: "char \<Rightarrow> bool" where
  "is_cont c \<longleftrightarrow> 128 \<le> (of_char c :: int) \<and> (of_char c :: int) < 192"

text \<open>Whether \<open>c\<close> can follow the lead byte \<open>b\<close> of a sequence of three or four bytes.\<close>
definition second_ok :: "int \<Rightarrow> char \<Rightarrow> bool" where
  "second_ok b c \<longleftrightarrow>
     is_cont c
     \<and> \<not> (b = 224 \<and> (of_char c :: int) < 160) \<and> \<not> (b = 237 \<and> (of_char c :: int) \<ge> 160)
     \<and> \<not> (b = 240 \<and> (of_char c :: int) < 144) \<and> \<not> (b = 244 \<and> (of_char c :: int) \<ge> 144)"

fun utf8_error :: "nat \<Rightarrow> string \<Rightarrow> (nat \<times> nat \<times> string) option" where
  "utf8_error i [] = None"
| "utf8_error i [c] =
     (if (of_char c :: int) < 128 then None
      else if (of_char c :: int) < 194 \<or> (of_char c :: int) > 244
      then Some (i, i + 1, ''invalid start byte'')
      else Some (i, i + 1, ''unexpected end of data''))"
| "utf8_error i [c, c1] =
     (if (of_char c :: int) < 128 then utf8_error (i + 1) [c1]
      else if (of_char c :: int) < 194 \<or> (of_char c :: int) > 244
      then Some (i, i + 1, ''invalid start byte'')
      else if (of_char c :: int) < 224
      then (if is_cont c1 then None else Some (i, i + 1, ''invalid continuation byte''))
      else if \<not> second_ok (of_char c) c1 then Some (i, i + 1, ''invalid continuation byte'')
      else Some (i, i + 2, ''unexpected end of data''))"
| "utf8_error i [c, c1, c2] =
     (if (of_char c :: int) < 128 then utf8_error (i + 1) [c1, c2]
      else if (of_char c :: int) < 194 \<or> (of_char c :: int) > 244
      then Some (i, i + 1, ''invalid start byte'')
      else if (of_char c :: int) < 224
      then (if is_cont c1 then utf8_error (i + 2) [c2]
            else Some (i, i + 1, ''invalid continuation byte''))
      else if \<not> second_ok (of_char c) c1 then Some (i, i + 1, ''invalid continuation byte'')
      else if \<not> is_cont c2 then Some (i, i + 2, ''invalid continuation byte'')
      else if (of_char c :: int) < 240 then None
      else Some (i, i + 3, ''unexpected end of data''))"
| "utf8_error i (c # c1 # c2 # c3 # cs) =
     (if (of_char c :: int) < 128 then utf8_error (i + 1) (c1 # c2 # c3 # cs)
      else if (of_char c :: int) < 194 \<or> (of_char c :: int) > 244
      then Some (i, i + 1, ''invalid start byte'')
      else if (of_char c :: int) < 224
      then (if is_cont c1 then utf8_error (i + 2) (c2 # c3 # cs)
            else Some (i, i + 1, ''invalid continuation byte''))
      else if \<not> second_ok (of_char c) c1 then Some (i, i + 1, ''invalid continuation byte'')
      else if \<not> is_cont c2 then Some (i, i + 2, ''invalid continuation byte'')
      else if (of_char c :: int) < 240 then utf8_error (i + 3) (c3 # cs)
      else if \<not> is_cont c3 then Some (i, i + 3, ''invalid continuation byte'')
      else utf8_error (i + 4) cs)"

text \<open>The message of the \<open>UnicodeDecodeError\<close> for the sequence from \<open>i\<close> to \<open>j\<close>.\<close>
definition utf8_error_message :: "string \<Rightarrow> nat \<Rightarrow> nat \<Rightarrow> string \<Rightarrow> string" where
  "utf8_error_message bs i j reason =
     [CHR 0x27] @ ''utf-8'' @ [CHR 0x27] @ '' codec can'' @ [CHR 0x27] @ ''t decode ''
       @ (if j = i + 1 then ''byte 0x'' @ hex2 (of_char (bs ! i)) @ '' in position '' @ str_nat i
          else ''bytes in position '' @ str_nat i @ ''-'' @ str_nat (j - 1))
       @ '': '' @ reason"

text \<open>
  A \<open>dict\<close> with \<open>str\<close> keys is an association list in insertion order with distinct keys:
  \<open>d[k] = v\<close> replaces the value of a key that is present and appends a new key at the end.
\<close>
type_synonym dict = "(string \<times> string) list"

fun dict_set :: "dict \<Rightarrow> string \<Rightarrow> string \<Rightarrow> dict" where
  "dict_set [] k v = [(k, v)]"
| "dict_set ((k', v') # d) k v = (if k' = k then (k, v) # d else (k', v') # dict_set d k v)"


text \<open>\<open>k in d\<close>\<close>
definition dict_has :: "dict \<Rightarrow> string \<Rightarrow> bool" where
  "dict_has d k \<longleftrightarrow> k \<in> set (map fst d)"


section \<open>Protocol constants (protocol.py)\<close>

definition GURT_VERSION :: string where "GURT_VERSION = ''1.0.0''"
definition DEFAULT_PORT :: int where "DEFAULT_PORT = 4878"
definition PROTOCOL_PREFIX :: string where "PROTOCOL_PREFIX = ''GURT/''"
definition HEADER_SEPARATOR :: string where "HEADER_SEPARATOR = [CR, LF]"
definition BODY_SEPARATOR :: string where "BODY_SEPARATOR = [CR, LF, CR, LF]"
definition DEFAULT_HANDSHAKE_TIMEOUT :: real where "DEFAULT_HANDSHAKE_TIMEOUT = 5"
definition DEFAULT_REQUEST_TIMEOUT :: real where "DEFAULT_REQUEST_TIMEOUT = 30"
definition DEFAULT_CONNECTION_TIMEOUT :: real where "DEFAULT_CONNECTION_TIMEOUT = 10"
definition MAX_MESSAGE_SIZE :: int where "MAX_MESSAGE_SIZE = 10 * 1024 * 1024"
definition GURT_ALPN :: string where "GURT_ALPN = ''GURT/1.0''"

datatype GurtStatusCode =
    OK | CREATED | ACCEPTED | NO_CONTENT
  | SWITCHING_PROTOCOLS
  | BAD_REQUEST | UNAUTHORIZED | FORBIDDEN | NOT_FOUND | METHOD_NOT_ALLOWED
  | TIMEOUT | TOO_LARGE | UNSUPPORTED_MEDIA_TYPE | TOO_MANY_REQUESTS
  | INTERNAL_SERVER_ERROR | NOT_IMPLEMENTED | BAD_GATEWAY | SERVICE_UNAVAILABLE
  | GATEWAY_TIMEOUT

text \<open>The integer of a member (\<open>self.value\<close>).\<close>
fun status_value :: "GurtStatusCode \<Rightarrow> int" where
  "status_value OK = 200"
| "status_value CREATED = 201"
| "status_value ACCEPTED = 202"
| "status_value NO_CONTENT = 204"
| "status_value SWITCHING_PROTOCOLS = 101"
| "status_value BAD_REQUEST = 400"
| "status_value UNAUTHORIZED = 401"
| "status_value FORBIDDEN = 403"
| "status_value NOT_FOUND = 404"
| "status_value METHOD_NOT_ALLOWED = 405"
| "status_value TIMEOUT = 408"
| "status_value TOO_LARGE = 413"
| "status_value UNSUPPORTED_MEDIA_TYPE = 415"
| "status_value TOO_MANY_REQUESTS = 429"
| "status_value INTERNAL_SERVER_ERROR = 500"
| "status_value NOT_IMPLEMENTED = 501"
| "status_value BAD_GATEWAY = 502"
| "status_value SERVICE_UNAVAILABLE = 503"
| "status_value GATEWAY_TIMEOUT = 504"

definition all_status_codes :: "GurtStatusCode list" where
  "all_status_codes =
     [OK, CREATED, ACCEPTED, NO_CONTENT, SWITCHING_PROTOCOLS, BAD_REQUEST, UNAUTHORIZED,
      FORBIDDEN, NOT_FOUND, METHOD_NOT_ALLOWED, TIMEOUT, TOO_LARGE, UNSUPPORTED_MEDIA_TYPE,
      TOO_MANY_REQUESTS, INTERNAL_SERVER_ERROR, NOT_IMPLEMENTED, BAD_GATEWAY,
      SERVICE_UNAVAILABLE, GATEWAY_TIMEOUT]"

text \<open>\<open>GurtStatusCode(n)\<close>: the member with that integer; \<open>None\<close> is its \<open>ValueError\<close>.\<close>
definition status_of_int :: "int \<Rightarrow> GurtStatusCode option" where
  "status_of_int n = find (\<lambda>c. status_value c = n) all_status_codes"

text \<open>\<open>STATUS_MESSAGES\<close>, a dict that has every member as a key.\<close>
fun STATUS_MESSAGES :: "GurtStatusCode \<Rightarrow> string option" where
  "STATUS_MESSAGES OK = Some ''OK''"
| "STATUS_MESSAGES CREATED = Some ''CREATED''"
| "STATUS_MESSAGES ACCEPTED = Some ''ACCEPTED''"
| "STATUS_MESSAGES NO_CONTENT = Some ''NO_CONTENT''"
| "STATUS_MESSAGES SWITCHING_PROTOCOLS = Some ''SWITCHING_PROTOCOLS''"
| "STATUS_MESSAGES BAD_REQUEST = Some ''BAD_REQUEST''"
| "STATUS_MESSAGES UNAUTHORIZED = Some ''UNAUTHORIZED''"
| "STATUS_MESSAGES FORBIDDEN = Some ''FORBIDDEN''"
| "STATUS_MESSAGES NOT_FOUND = Some ''NOT_FOUND''"
| "STATUS_MESSAGES METHOD_NOT_ALLOWED = Some ''METHOD_NOT_ALLOWED''"
| "STATUS_MESSAGES TIMEOUT = Some ''TIMEOUT''"
| "STATUS_MESSAGES TOO_LARGE = Some ''TOO_LARGE''"
| "STATUS_MESSAGES UNSUPPORTED_MEDIA_TYPE = Some ''UNSUPPORTED_MEDIA_TYPE''"
| "STATUS_MESSAGES TOO_MANY_REQUESTS = Some ''TOO_MANY_REQUESTS''"
| "STATUS_MESSAGES INTERNAL_SERVER_ERROR = Some ''INTERNAL_SERVER_ERROR''"
| "STATUS_MESSAGES NOT_IMPLEMENTED = Some ''NOT_IMPLEMENTED''"
| "STATUS_MESSAGES BAD_GATEWAY = Some ''BAD_GATEWAY''"
| "STATUS_MESSAGES SERVICE_UNAVAILABLE = Some ''SERVICE_UNAVAILABLE''"
| "STATUS_MESSAGES GATEWAY_TIMEOUT = Some ''GATEWAY_TIMEOUT''"

text \<open>\<open>GurtStatusCode.message\<close>: \<open>STATUS_MESSAGES.get(self, "UNKNOWN")\<close>\<close>
definition message :: "GurtStatusCode \<Rightarrow> string" where
  "message c = (case STATUS_MESSAGES c of Some m \<Rightarrow> m | None \<Rightarrow> ''UNKNOWN'')"

text \<open>\<open>self in (self.OK, self.CREATED, self.ACCEPTED, self.NO_CONTENT)\<close>\<close>
definition is_success :: "GurtStatusCode \<Rightarrow> bool" where
  "is_success c \<longleftrightarrow> c \<in> set [OK, CREATED, ACCEPTED, NO_CONTENT]"

text \<open>\<open>400 <= self.value < 500\<close>\<close>
definition is_client_error :: "GurtStatusCode \<Rightarrow> bool" where
  "is_client_error c \<longleftrightarrow> 400 \<le> status_value c \<and> status_value c < 500"

text \<open>\<open>self.value >= 500\<close>\<close>
definition is_server_error :: "GurtStatusCode \<Rightarrow> bool" where
  "is_server_error c \<longleftrightarrow> status_value c \<ge> 500"


section \<open>Errors (errors.py)\<close>

text \<open>
  The exception classes of the client, and the classes of the Python library that its
  handlers tell apart: \<open>socket.timeout\<close>, \<open>ssl.SSLError\<close>, and \<open>PyException\<close> for any
  other subclass of \<open>Exception\<close> (\<open>ValueError\<close>, \<open>UnicodeDecodeError\<close>, \<open>OSError\<close>,
  ...). An exception is its
  class and its message (\<open>str(e)\<close>).
\<close>
datatype exn_kind =
    GurtError | GurtProtocolError | GurtConnectionError | GurtTimeoutError
  | GurtTLSError | GurtHandshakeError
  | SocketTimeout | SSLError | PyException

type_synonym exn = "exn_kind \<times> string"

text \<open>
  \<open>bs.decode('utf-8')\<close>: the text itself (in its UTF-8 representation), or the
  \<open>UnicodeDecodeError\<close>.
\<close>
definition decode_utf8 :: "string \<Rightarrow> exn + string" where
  "decode_utf8 bs =
     (case utf8_error 0 bs of
        None \<Rightarrow> Inr bs
      | Some (i, j, reason) \<Rightarrow> Inl (PyException, utf8_error_message bs i j reason))"


text \<open>\<open>isinstance(e, GurtError)\<close>: the base class and its five subclasses.\<close>
definition is_GurtError :: "exn_kind \<Rightarrow> bool" where
  "is_GurtError k \<longleftrightarrow>
     k \<in> set [GurtError, GurtProtocolError, GurtConnectionError, GurtTimeoutError,
              GurtTLSError, GurtHandshakeError]"


section \<open>Client configuration and TLS context (client.py)\<close>

record GurtClientConfig =
  handshake_timeout :: real
  request_timeout :: real
  connection_timeout :: real
  user_agent :: string
  verify_tls :: bool

text \<open>\<open>GurtClientConfig()\<close> with every argument at its default.\<close>
definition GurtClientConfig_default :: GurtClientConfig where
  "GurtClientConfig_default =
     \<lparr>handshake_timeout = DEFAULT_HANDSHAKE_TIMEOUT,
      request_timeout = DEFAULT_REQUEST_TIMEOUT,
      connection_timeout = DEFAULT_CONNECTION_TIMEOUT,
      user_agent = ''GURT-Python-Client/1.0.0'',
      verify_tls = False\<rparr>"

datatype tls_version = TLSv1_2 | TLSv1_3 | MAXIMUM_SUPPORTED
datatype verify_mode = CERT_NONE | CERT_OPTIONAL | CERT_REQUIRED

record SSLContext =
  minimum_version :: tls_version
  maximum_version :: tls_version
  alpn_protocols :: "string list"
  check_hostname :: bool
  verify_mode :: verify_mode

text \<open>
  \<open>ssl.create_default_context()\<close>: a client context that checks the host name and
  requires a certificate.
\<close>
definition create_default_context :: SSLContext where
  "create_default_context =
     \<lparr>minimum_version = TLSv1_2, maximum_version = MAXIMUM_SUPPORTED, alpn_protocols = [],
      check_hostname = True, verify_mode = CERT_REQUIRED\<rparr>"

text \<open>
  Assigning \<open>context.verify_mode\<close>: the library raises \<open>ValueError\<close> when the mode is
  \<open>CERT_NONE\<close> while the host name is still checked.
\<close>
definition set_verify_mode :: "SSLContext \<Rightarrow> verify_mode \<Rightarrow> exn + SSLContext" where
  "set_verify_mode ctx m =
     (if m = CERT_NONE \<and> check_hostname ctx
      then Inl (PyException,
                ''Cannot set verify_mode to CERT_NONE when check_hostname is enabled.'')
      else Inr (ctx\<lparr>verify_mode := m\<rparr>))"

text \<open>\<open>GurtClient._create_ssl_context\<close>\<close>
definition create_ssl_context :: "GurtClientConfig \<Rightarrow> exn + SSLContext" where
  "create_ssl_context config =
     (let context = create_default_context;
          context = context\<lparr>minimum_version := TLSv1_3\<rparr>;
          context = context\<lparr>maximum_version := TLSv1_3\<rparr>;
          context = context\<lparr>alpn_protocols := [GURT_ALPN]\<rparr>
      in if \<not> verify_tls config then
           (case set_verify_mode (context\<lparr>check_hostname := False\<rparr>) CERT_NONE of
              Inl e \<Rightarrow> Inl (GurtTLSError, ''Failed to create SSL context: '' @ snd e)
            | Inr context \<Rightarrow> Inr context)
         else Inr context)"

record GurtClient =
  config :: GurtClientConfig
  ssl_context :: SSLContext

text \<open>\<open>GurtClient.__init__\<close>: \<open>config or GurtClientConfig()\<close>, then the TLS context.\<close>
definition GurtClient_init :: "GurtClientConfig option \<Rightarrow> exn + GurtClient" where
  "GurtClient_init cfg =
     (let c = (case cfg of None \<Rightarrow> GurtClientConfig_default | Some c \<Rightarrow> c)
      in case create_ssl_context c of
           Inl e \<Rightarrow> Inl e
         | Inr ctx \<Rightarrow> Inr \<lparr>config = c, ssl_context = ctx\<rparr>)"


section \<open>Messages (message.py)\<close>

datatype GurtMethod = GET | POST | PUT | DELETE | HEAD | OPTIONS | PATCH | HANDSHAKE

text \<open>The wire token of a method (\<open>self.method.value\<close>).\<close>
fun method_value :: "GurtMethod \<Rightarrow> string" where
  "method_value GET = ''GET''"
| "method_value POST = ''POST''"
| "method_value PUT = ''PUT''"
| "method_value DELETE = ''DELETE''"
| "method_value HEAD = ''HEAD''"
| "method_value OPTIONS = ''OPTIONS''"
| "method_value PATCH = ''PATCH''"
| "method_value HANDSHAKE = ''HANDSHAKE''"

definition all_methods :: "GurtMethod list" where
  "all_methods = [GET, POST, PUT, DELETE, HEAD, OPTIONS, PATCH, HANDSHAKE]"

text \<open>\<open>GurtMethod(token)\<close>: the member with that value; \<open>None\<close> is its \<open>ValueError\<close>.\<close>
definition method_of_token :: "string \<Rightarrow> GurtMethod option" where
  "method_of_token t = find (\<lambda>m. method_value m = t) all_methods"

text \<open>
  The attributes that requests and responses share, then each class (\<open>req_method\<close>
  is the attribute \<open>method\<close> of a request).
\<close>
record GurtMessage =
  version :: string
  headers :: dict
  body :: string

record GurtRequest = GurtMessage +
  req_method :: GurtMethod
  path :: string

record GurtResponse = GurtMessage +
  status_code :: GurtStatusCode
  status_message :: string

text \<open>\<open>GurtRequest.__init__\<close>\<close>
definition GurtRequest_init :: "GurtMethod \<Rightarrow> string \<Rightarrow> string \<Rightarrow> GurtRequest" where
  "GurtRequest_init m p v = \<lparr>version = v, headers = [], body = [], req_method = m, path = p\<rparr>"

text \<open>\<open>GurtResponse.__init__\<close>\<close>
definition GurtResponse_init :: "GurtStatusCode \<Rightarrow> string \<Rightarrow> GurtResponse" where
  "GurtResponse_init c v =
     \<lparr>version = v, headers = [], body = [], status_code = c, status_message = message c\<rparr>"

text \<open>\<open>with_header\<close> and \<open>with_body\<close>, the same in both classes; \<open>get_header\<close>\<close>
definition with_header :: "'a GurtMessage_scheme \<Rightarrow> string \<Rightarrow> string \<Rightarrow> 'a GurtMessage_scheme" where
  "with_header r key val = r\<lparr>headers := dict_set (headers r) (lower key) val\<rparr>"



text \<open>The loop \<open>for key, value in headers.items(): message += ...\<close> of both encoders.\<close>
definition add_header_lines :: "string \<Rightarrow> dict \<Rightarrow> string" where
  "add_header_lines msg hs = foldl (\<lambda>m (k, v). m @ k @ '': '' @ v @ HEADER_SEPARATOR) msg hs"

text \<open>\<open>if key not in headers: headers[key] = value\<close>\<close>
definition set_default :: "dict \<Rightarrow> string \<Rightarrow> string \<Rightarrow> dict" where
  "set_default hs k v = (if \<not> dict_has hs k then dict_set hs k v else hs)"

text \<open>The headers that \<open>GurtRequest.to_bytes\<close> sends: a copy with the defaults added.\<close>
definition request_wire_headers :: "GurtRequest \<Rightarrow> dict" where
  "request_wire_headers r =
     (let hs = headers r;
          hs = set_default hs ''content-length'' (str_nat (length (body r)));
          hs = set_default hs ''user-agent'' (''GURT-Python-Client/'' @ GURT_VERSION)
      in hs)"

text \<open>\<open>GurtRequest.to_bytes\<close>\<close>
definition GurtRequest_to_bytes :: "GurtRequest \<Rightarrow> string" where
  "GurtRequest_to_bytes r =
     (let msg = method_value (req_method r) @ '' '' @ path r @ '' '' @ PROTOCOL_PREFIX @ version r
                  @ HEADER_SEPARATOR;
          msg = add_header_lines msg (request_wire_headers r);
          msg = msg @ HEADER_SEPARATOR
      in msg @ body r)"

text \<open>
  The split at the body separator that both decoders start with: header text and body, the
  whole input and an empty body when the separator does not occur.
\<close>
definition split_body :: "string \<Rightarrow> string \<times> string" where
  "split_body data =
     (case split_once BODY_SEPARATOR data of Some (h, b) \<Rightarrow> (h, b) | None \<Rightarrow> (data, []))"

text \<open>The lines of the header text of a message whose header text decodes to itself.\<close>
definition header_lines :: "string \<Rightarrow> string list" where
  "header_lines data = split HEADER_SEPARATOR (fst (split_body data))"

text \<open>
  The header loop of both decoders, over \<open>lines[1:]\<close>: a blank line ends it, a line with a
  colon is split at the first colon and stored under the stripped, lower-cased key, any
  other line is skipped.
\<close>
fun parse_header_lines :: "dict \<Rightarrow> string list \<Rightarrow> dict" where
  "parse_header_lines hs [] = hs"
| "parse_header_lines hs (line # rest) =
     (if strip line = [] then hs
      else case split_once '':'' line of
             Some (key, val) \<Rightarrow> parse_header_lines (dict_set hs (lower (strip key)) (strip val)) rest
           | None \<Rightarrow> parse_header_lines hs rest)"

text \<open>\<open>GurtRequest.parse\<close>\<close>
definition GurtRequest_parse :: "string \<Rightarrow> exn + GurtRequest" where
  "GurtRequest_parse data =
     (let (headers_part, body_part) = split_body data
      in case decode_utf8 headers_part of
           Inl e \<Rightarrow> Inl e
         | Inr headers_str \<Rightarrow>
      let lines = split HEADER_SEPARATOR headers_str
      in if lines = [] then Inl (GurtProtocolError, ''Empty request'')
         else
           let request_line = hd lines;
               parts = split_ws request_line
           in if length parts \<noteq> 3 then Inl (GurtProtocolError, ''Invalid request line format'')
              else case method_of_token (parts ! 0) of
                     None \<Rightarrow> Inl (GurtProtocolError, ''Unsupported method: '' @ parts ! 0)
                   | Some m \<Rightarrow>
                       if \<not> startswith (parts ! 2) PROTOCOL_PREFIX
                       then Inl (GurtProtocolError, ''Invalid protocol identifier'')
                       else
                         let v = drop (length PROTOCOL_PREFIX) (parts ! 2);
                             request = (GurtRequest_init m (parts ! 1) v)\<lparr>body := body_part\<rparr>
                         in Inr (request\<lparr>headers :=
                                   parse_header_lines (headers request) (tl lines)\<rparr>))"

text \<open>
  The headers that \<open>GurtResponse.to_bytes\<close> sends; \<open>now\<close> is the text that
  \<open>datetime.now(timezone.utc).strftime(...)\<close> gives at the time of the call.
\<close>
definition response_wire_headers :: "string \<Rightarrow> GurtResponse \<Rightarrow> dict" where
  "response_wire_headers now r =
     (let hs = headers r;
          hs = set_default hs ''content-length'' (str_nat (length (body r)));
          hs = set_default hs ''server'' (''GURT/'' @ GURT_VERSION);
          hs = set_default hs ''date'' now
      in hs)"

text \<open>\<open>GurtResponse.to_bytes\<close>\<close>
definition GurtResponse_to_bytes :: "string \<Rightarrow> GurtResponse \<Rightarrow> string" where
  "GurtResponse_to_bytes now r =
     (let msg = PROTOCOL_PREFIX @ version r @ '' '' @ str_int (status_value (status_code r))
                  @ '' '' @ status_message r @ HEADER_SEPARATOR;
          msg = add_header_lines msg (response_wire_headers now r);
          msg = msg @ HEADER_SEPARATOR
      in msg @ body r)"

text \<open>The status line of a response, cut at its first two spaces (\<open>split(' ', 2)\<close>).\<close>
definition status_line_parts :: "string \<Rightarrow> string list" where
  "status_line_parts data = splitn 2 '' '' (hd (header_lines data))"

text \<open>The request line of a request, cut at whitespace (\<open>split()\<close>).\<close>
definition request_line_parts :: "string \<Rightarrow> string list" where
  "request_line_parts data = split_ws (hd (header_lines data))"

text \<open>\<open>GurtResponse.parse\<close>\<close>
definition GurtResponse_parse :: "string \<Rightarrow> exn + GurtResponse" where
  "GurtResponse_parse data =
     (let (headers_part, body_part) = split_body data
      in case decode_utf8 headers_part of
           Inl e \<Rightarrow> Inl e
         | Inr headers_str \<Rightarrow>
      let lines = split HEADER_SEPARATOR headers_str
      in if lines = [] then Inl (GurtProtocolError, ''Empty response'')
         else
           let status_line = hd lines;
               parts = splitn 2 '' '' status_line
           in if length parts < 2 then Inl (GurtProtocolError, ''Invalid status line format'')
              else if \<not> startswith (parts ! 0) PROTOCOL_PREFIX
              then Inl (GurtProtocolError, ''Invalid protocol identifier'')
              else
                let v = drop (length PROTOCOL_PREFIX) (parts ! 0)
                in case Option.bind (py_int (parts ! 1)) status_of_int of
                     None \<Rightarrow> Inl (GurtProtocolError, ''Invalid status code: '' @ parts ! 1)
                   | Some c \<Rightarrow>
                       let response = (GurtResponse_init c v)\<lparr>body := body_part\<rparr>;
                           response = (if length parts > 2
                                       then response\<lparr>status_message := parts ! 2\<rparr>
                                       else response)
                       in Inr (response\<lparr>headers :=
                                 parse_header_lines (headers response) (tl lines)\<rparr>))"


section \<open>URL parsing (urllib.parse as client.py uses it)\<close>

text \<open>
  \<open>urllib.parse.urlparse\<close> of Python 3.11 on ASCII text, with the attributes
  \<open>hostname\<close> and \<open>port\<close> of its result. The library validates a host in square
  brackets with its \<open>ipaddress\<close> and \<open>re\<close> modules; that check is the parameter
  \<open>check_bracketed_host\<close>, which gives the message of the \<open>ValueError\<close> for a host it
  rejects. On ASCII text \<open>_checknetloc\<close> does nothing.
\<close>

record ParseResult =
  url_scheme :: string
  url_netloc :: string
  url_path :: string
  url_params :: string
  url_query :: string
  url_fragment :: string

definition scheme_chars :: string where
  "scheme_chars = lower_letters @ upper_letters @ digits @ ''+-.''"

definition uses_params :: "string list" where
  "uses_params = [[], ''ftp'', ''hdl'', ''prospero'', ''http'', ''imap'', ''https'', ''shttp'',
                  ''rtsp'', ''rtsps'', ''rtspu'', ''sip'', ''sips'', ''mms'', ''sftp'', ''tel'']"

text \<open>\<open>_WHATWG_C0_CONTROL_OR_SPACE\<close>: the characters up to the space.\<close>
definition c0_control_or_space :: "char \<Rightarrow> bool" where
  "c0_control_or_space c \<longleftrightarrow> of_char c \<le> (32 :: nat)"

text \<open>\<open>_UNSAFE_URL_BYTES_TO_REMOVE\<close>: TAB, CR and LF.\<close>
definition unsafe_url_byte :: "char \<Rightarrow> bool" where
  "unsafe_url_byte c \<longleftrightarrow> c \<in> set [CHR 0x09, CR, LF]"

text \<open>\<open>_splitnetloc(url, 2)\<close>: the text after \<open>//\<close> up to the first of \<open>/ ? #\<close>, and the rest.\<close>
definition splitnetloc :: "string \<Rightarrow> string \<times> string" where
  "splitnetloc url =
     (takeWhile (\<lambda>c. c \<notin> set ''/?#'') (drop 2 url),
      dropWhile (\<lambda>c. c \<notin> set ''/?#'') (drop 2 url))"

text \<open>
  \<open>s.rpartition(sep)\<close> for a one-character \<open>sep\<close>: the text before and after its last
  occurrence, \<open>None\<close> when it does not occur.
\<close>
definition rsplit_once :: "char \<Rightarrow> string \<Rightarrow> (string \<times> string) option" where
  "rsplit_once c s =
     (if c \<in> set s
      then Some (rev (tl (dropWhile (\<lambda>x. x \<noteq> c) (rev s))), rev (takeWhile (\<lambda>x. x \<noteq> c) (rev s)))
      else None)"

text \<open>\<open>_splitparams\<close>, called when the path has a semicolon.\<close>
definition splitparams :: "string \<Rightarrow> string \<times> string" where
  "splitparams url =
     (case rsplit_once (CHR ''/'') url of
        Some (before, after) \<Rightarrow>
          (case split_once '';'' after of
             None \<Rightarrow> (url, [])
           | Some (a, b) \<Rightarrow> (before @ ''/'' @ a, b))
      | None \<Rightarrow>
          (case split_once '';'' url of
             None \<Rightarrow> (url, [])
           | Some (a, b) \<Rightarrow> (a, b)))"

text \<open>
  The steps of \<open>urlsplit\<close>. Leading control characters and spaces are dropped and TAB,
  CR and LF are removed everywhere.
\<close>
definition clean_url :: "string \<Rightarrow> string" where
  "clean_url url = filter (\<lambda>c. \<not> unsafe_url_byte c) (dropWhile c0_control_or_space url)"

text \<open>
  The text before the first colon is the scheme when it is not empty, starts with a letter
  and holds scheme characters only; the result is the scheme in lower case and the text
  after the colon, or no scheme and the whole text.
\<close>
definition split_scheme :: "string \<Rightarrow> string \<times> string" where
  "split_scheme url =
     (case split_once '':'' url of
        Some (s, rest) \<Rightarrow>
          if s \<noteq> [] \<and> hd s \<in> set (lower_letters @ upper_letters)
             \<and> list_all (\<lambda>c. c \<in> set scheme_chars) s
          then (lower s, rest) else ([], url)
      | None \<Rightarrow> ([], url))"

text \<open>The bracket checks on the netloc: the \<open>ValueError\<close> message, if any.\<close>
definition check_brackets :: "(string \<Rightarrow> string option) \<Rightarrow> string \<Rightarrow> string option" where
  "check_brackets check_bracketed_host netloc =
     (let open_br = CHR ''['' \<in> set netloc;
          close_br = CHR '']'' \<in> set netloc
      in if (open_br \<and> \<not> close_br) \<or> (close_br \<and> \<not> open_br) then Some ''Invalid IPv6 URL''
         else if open_br \<and> close_br
         then check_bracketed_host
                (takeWhile (\<lambda>c. c \<noteq> CHR '']'') (drop 1 (dropWhile (\<lambda>c. c \<noteq> CHR ''['') netloc)))
         else None)"

text \<open>The fragment is cut off at the first \<open>#\<close>, then the query at the first \<open>?\<close>.\<close>
definition split_fragment_query :: "string \<Rightarrow> string \<times> string \<times> string" where
  "split_fragment_query url =
     (let (url, fragment) =
            (case split_once ''#'' url of Some (u, f) \<Rightarrow> (u, f) | None \<Rightarrow> (url, []));
          (url, query) =
            (case split_once ''?'' url of Some (u, q) \<Rightarrow> (u, q) | None \<Rightarrow> (url, []))
      in (url, query, fragment))"

text \<open>\<open>urlsplit\<close>: the result of \<open>urlparse\<close> before the parameters are cut off.\<close>
definition urlsplit :: "(string \<Rightarrow> string option) \<Rightarrow> string \<Rightarrow> exn + ParseResult" where
  "urlsplit check_bracketed_host url0 =
     (let (scheme, url) = split_scheme (clean_url url0);
          (netloc, url) = (if take 2 url = ''//'' then splitnetloc url else ([], url))
      in case check_brackets check_bracketed_host netloc of
           Some msg \<Rightarrow> Inl (PyException, msg)
         | None \<Rightarrow>
             let (url, query, fragment) = split_fragment_query url
             in Inr \<lparr>url_scheme = scheme, url_netloc = netloc, url_path = url,
                     url_params = [], url_query = query, url_fragment = fragment\<rparr>)"

text \<open>\<open>urlparse\<close>\<close>
definition urlparse :: "(string \<Rightarrow> string option) \<Rightarrow> string \<Rightarrow> exn + ParseResult" where
  "urlparse check_bracketed_host url =
     (case urlsplit check_bracketed_host url of
        Inl e \<Rightarrow> Inl e
      | Inr r \<Rightarrow>
          if url_scheme r \<in> set uses_params \<and> CHR '';'' \<in> set (url_path r)
          then Inr (r\<lparr>url_path := fst (splitparams (url_path r)),
                      url_params := snd (splitparams (url_path r))\<rparr>)
          else Inr r)"

text \<open>
  \<open>_hostinfo\<close>: the host and port texts of the netloc, after the last \<open>@\<close>; an empty
  port is \<open>None\<close>.
\<close>
definition hostinfo :: "ParseResult \<Rightarrow> string \<times> string option" where
  "hostinfo r =
     (let info = rev (takeWhile (\<lambda>c. c \<noteq> CHR ''@'') (rev (url_netloc r)));
          (hostname, port) =
            (case split_once ''['' info of
               Some (_, bracketed) \<Rightarrow>
                 (case split_once '']'' bracketed of
                    Some (h, p) \<Rightarrow>
                      (h, case split_once '':'' p of Some (_, p') \<Rightarrow> p' | None \<Rightarrow> [])
                  | None \<Rightarrow> (bracketed, []))
             | None \<Rightarrow>
                 (case split_once '':'' info of Some (h, p) \<Rightarrow> (h, p) | None \<Rightarrow> (info, [])))
      in (hostname, if port = [] then None else Some port))"

text \<open>The attribute \<open>hostname\<close>: lower case up to a zone mark \<open>%\<close>, \<open>None\<close> when empty.\<close>
definition hostname :: "ParseResult \<Rightarrow> string option" where
  "hostname r =
     (let h = fst (hostinfo r)
      in if h = [] then None
         else case split_once ''%'' h of
                Some (a, zone) \<Rightarrow> Some (lower a @ ''%'' @ zone)
              | None \<Rightarrow> Some (lower h))"

text \<open>The value of a text of decimal digits.\<close>
definition int_of_digits :: "string \<Rightarrow> int" where
  "int_of_digits s = foldl (\<lambda>a c. 10 * a + digit_val c) 0 s"

text \<open>
  The attribute \<open>port\<close>: \<open>ValueError\<close> for a port that is not a number up to 65535. The
  number is read by \<open>int\<close>, which refuses more than 4300 digits.
\<close>
definition port :: "ParseResult \<Rightarrow> exn + int option" where
  "port r =
     (case snd (hostinfo r) of
        None \<Rightarrow> Inr None
      | Some p \<Rightarrow>
          if list_all is_digit p
          then (if int (length p) > 4300
                then Inl (PyException,
                          ''Exceeds the limit (4300 digits) for integer string conversion: ''
                            @ ''value has '' @ str_nat (length p)
                            @ '' digits; use sys.set_int_max_str_digits() to increase the limit'')
                else if int_of_digits p \<le> 65535 then Inr (Some (int_of_digits p))
                else Inl (PyException, ''Port out of range 0-65535''))
          else Inl (PyException, ''Port could not be cast to integer value as '' @ py_repr p))"

text \<open>\<open>GurtClient._parse_gurt_url\<close>\<close>
definition parse_gurt_url ::
  "(string \<Rightarrow> string option) \<Rightarrow> string \<Rightarrow> exn + (string \<times> int \<times> string)" where
  "parse_gurt_url check_bracketed_host url =
     (if \<not> startswith url ''gurt://''
      then Inl (GurtError, ''URL must use gurt:// scheme: '' @ url)
      else
        case urlparse check_bracketed_host url of
          Inl e \<Rightarrow> Inl e
        | Inr parsed \<Rightarrow>
            (case hostname parsed of
               None \<Rightarrow> Inl (GurtError, ''URL must have a hostname: '' @ url)
             | Some host \<Rightarrow>
                 (case port parsed of
                    Inl e \<Rightarrow> Inl e
                  | Inr p \<Rightarrow>
                      let prt = (case p of
                                   None \<Rightarrow> DEFAULT_PORT
                                 | Some n \<Rightarrow> if n = 0 then DEFAULT_PORT else n);
                          pth = (if url_path parsed = [] then ''/'' else url_path parsed);
                          pth = (if url_query parsed \<noteq> []
                                 then pth @ ''?'' @ url_query parsed else pth)
                      in Inr (host, prt, pth))))"


section \<open>Sockets and the handshake (client.py)\<close>

text \<open>
  A socket is modelled by what its peer does: the results of the successive \<open>recv\<close>
  calls (bytes that have arrived, where no bytes means that the peer has closed, or an
  exception such as \<open>socket.timeout\<close>), the exception that \<open>sendall\<close> meets, if any,
  and the outcome of wrapping the socket in TLS (an exception, or the ALPN protocol that was
  selected). It also records the calls that the client makes on it, oldest first.
\<close>
datatype recv_event = Data string | Raise exn

datatype action = Sendall string | Settimeout real | Recv nat | WrapSocket string

record socket =
  incoming :: "recv_event list"
  sendall_error :: "exn option"
  wrap_result :: "exn + string option"
  calls :: "action list"

text \<open>\<open>sock.sendall(data)\<close>\<close>
definition sendall :: "socket \<Rightarrow> string \<Rightarrow> (exn + unit) \<times> socket" where
  "sendall s data =
     ((case sendall_error s of None \<Rightarrow> Inr () | Some e \<Rightarrow> Inl e),
      s\<lparr>calls := calls s @ [Sendall data]\<rparr>)"

text \<open>\<open>sock.settimeout(t)\<close>\<close>
definition settimeout :: "socket \<Rightarrow> real \<Rightarrow> socket" where
  "settimeout s t = s\<lparr>calls := calls s @ [Settimeout t]\<rparr>"

text \<open>
  \<open>sock.recv(n)\<close>: at most \<open>n\<close> of the bytes that have arrived, the rest of them
  staying for the next call; no bytes once the peer has closed.
\<close>
definition recv :: "socket \<Rightarrow> nat \<Rightarrow> (exn + string) \<times> socket" where
  "recv s n =
     (let s = s\<lparr>calls := calls s @ [Recv n]\<rparr>
      in case incoming s of
           [] \<Rightarrow> (Inr [], s)
         | Raise e # rest \<Rightarrow> (Inl e, s\<lparr>incoming := rest\<rparr>)
         | Data bs # rest \<Rightarrow>
             (Inr (take n bs),
              s\<lparr>incoming := (if length bs \<le> n then rest else Data (drop n bs) # rest)\<rparr>))"

text \<open>\<open>ssl_context.wrap_socket(sock, server_hostname=host)\<close>\<close>
definition wrap_socket :: "SSLContext \<Rightarrow> socket \<Rightarrow> string \<Rightarrow> (exn + string option) \<times> socket" where
  "wrap_socket ctx s host = (wrap_result s, s\<lparr>calls := calls s @ [WrapSocket host]\<rparr>)"

text \<open>The bytes and events that a socket still has to deliver, as a number.\<close>
fun event_size :: "recv_event \<Rightarrow> nat" where
  "event_size (Data bs) = Suc (length bs)"
| "event_size (Raise e) = 1"

definition pending :: "socket \<Rightarrow> nat" where
  "pending s = sum_list (map event_size (incoming s))"

lemma recv_pending:
  assumes "recv s n = (Inr chunk, s')" "chunk \<noteq> []"
  shows "pending s' < pending s"
proof (cases "incoming s")
  case Nil
  with assms show ?thesis by (simp add: recv_def)
next
  case (Cons ev rest)
  show ?thesis
  proof (cases ev)
    case (Raise e)
    with Cons assms show ?thesis by (simp add: recv_def)
  next
    case (Data bs)
    with Cons assms have "take n bs \<noteq> []" by (auto simp: recv_def)
    then have "0 < n" "bs \<noteq> []" by (cases n; auto)+
    with Cons Data assms show ?thesis
      by (auto simp: recv_def pending_def split: if_splits)
  qed
qed

text \<open>\<open>data.find(sub)\<close>: the index of the first occurrence, or -1.\<close>
definition find_sub :: "string \<Rightarrow> string \<Rightarrow> int" where
  "find_sub sub s = (case split_once sub s of Some (a, _) \<Rightarrow> int (length a) | None \<Rightarrow> - 1)"

text \<open>
  The first loop of \<open>_read_response_data\<close>: read until the header terminator is in the
  data; \<open>data\<close> is what has been read so far.
\<close>
function read_headers :: "socket \<Rightarrow> string \<Rightarrow> (exn + string) \<times> socket" where
  "read_headers s data =
     (if contains BODY_SEPARATOR data then (Inr data, s)
      else case recv s 4096 of
             (Inl e, s') \<Rightarrow> (Inl e, s')
           | (Inr chunk, s') \<Rightarrow>
               if chunk = []
               then (Inl (GurtConnectionError, ''Connection closed while reading headers''), s')
               else if int (length (data @ chunk)) > MAX_MESSAGE_SIZE
               then (Inl (GurtProtocolError, ''Response too large''), s')
               else read_headers s' (data @ chunk))"
  by pat_completeness auto
termination
  by (relation "measure (\<lambda>(s, data). pending s)") (auto dest: recv_pending [OF sym])

declare read_headers.simps [simp del]

text \<open>The text after the first colon of a header line, stripped.\<close>
definition content_length_text :: "string \<Rightarrow> string" where
  "content_length_text line = strip (splitn 1 '':'' line ! 1)"

definition is_content_length_line :: "string \<Rightarrow> bool" where
  "is_content_length_line line = startswith (lower line) ''content-length:''"

text \<open>
  The loop over the header lines: the first line that starts with \<open>content-length:\<close>
  decides and ends the loop; a value that \<open>int\<close> rejects leaves the length at 0.
\<close>
fun scan_content_length :: "string list \<Rightarrow> int" where
  "scan_content_length [] = 0"
| "scan_content_length (line # rest) =
     (if is_content_length_line line
      then (case py_int (content_length_text line) of Some n \<Rightarrow> n | None \<Rightarrow> 0)
      else scan_content_length rest)"

text \<open>The second loop: read until the body has the declared length.\<close>
function read_body :: "socket \<Rightarrow> string \<Rightarrow> int \<Rightarrow> (exn + string) \<times> socket" where
  "read_body s body_data content_length =
     (if int (length body_data) < content_length
      then case recv s (min 4096 (nat (content_length - int (length body_data)))) of
             (Inl e, s') \<Rightarrow> (Inl e, s')
           | (Inr chunk, s') \<Rightarrow>
               if chunk = []
               then (Inl (GurtConnectionError, ''Connection closed while reading body''), s')
               else read_body s' (body_data @ chunk) content_length
      else (Inr body_data, s))"
  by pat_completeness auto
termination
  by (relation "measure (\<lambda>(s, body_data, content_length). pending s)")
    (auto dest: recv_pending [OF sym])

declare read_body.simps [simp del]

text \<open>The header part of the data that the first loop has read, with its terminator.\<close>
definition headers_data :: "string \<Rightarrow> string" where
  "headers_data data = take (nat (find_sub BODY_SEPARATOR data + 4)) data"

definition body_data :: "string \<Rightarrow> string" where
  "body_data data = drop (nat (find_sub BODY_SEPARATOR data + 4)) data"

text \<open>\<open>GurtClient._read_response_data\<close>\<close>
definition read_response_data :: "socket \<Rightarrow> (exn + string) \<times> socket" where
  "read_response_data sock =
     (case read_headers sock [] of
        (Inl e, s) \<Rightarrow> (Inl e, s)
      | (Inr data, s) \<Rightarrow>
          (case decode_utf8 (headers_data data) of
             Inl e \<Rightarrow> (Inl e, s)
           | Inr headers_str \<Rightarrow>
               let content_length = scan_content_length (split HEADER_SEPARATOR headers_str)
               in case read_body s (body_data data) content_length of
                    (Inl e, s') \<Rightarrow> (Inl e, s')
                  | (Inr b, s') \<Rightarrow> (Inr (headers_data data @ b), s')))"

text \<open>
  The first steps of \<open>_perform_handshake\<close>: send the handshake request, set the timeout,
  read the response and decode it.
\<close>
definition handshake_request :: "GurtClient \<Rightarrow> string \<Rightarrow> GurtRequest" where
  "handshake_request client host =
     with_header (with_header (GurtRequest_init HANDSHAKE ''/'' GURT_VERSION) ''Host'' host)
       ''User-Agent'' (user_agent (config client))"

definition await_handshake_response ::
  "GurtClient \<Rightarrow> socket \<Rightarrow> string \<Rightarrow> (exn + GurtResponse) \<times> socket" where
  "await_handshake_response client sock host =
     (case sendall sock (GurtRequest_to_bytes (handshake_request client host)) of
        (Inl e, s) \<Rightarrow> (Inl e, s)
      | (Inr _, s) \<Rightarrow>
          (case read_response_data (settimeout s (handshake_timeout (config client))) of
             (Inl e, s') \<Rightarrow> (Inl e, s')
           | (Inr response_data, s') \<Rightarrow>
               (case GurtResponse_parse response_data of
                  Inl e \<Rightarrow> (Inl e, s')
                | Inr handshake_response \<Rightarrow> (Inr handshake_response, s'))))"

text \<open>
  The body of the \<open>try\<close> statement of \<open>_perform_handshake\<close>; its result is the ALPN
  protocol of the TLS socket, and the socket.
\<close>
definition handshake_steps ::
  "GurtClient \<Rightarrow> socket \<Rightarrow> string \<Rightarrow> (exn + string) \<times> socket" where
  "handshake_steps client sock host =
     (case await_handshake_response client sock host of
        (Inl e, s) \<Rightarrow> (Inl e, s)
      | (Inr handshake_response, s) \<Rightarrow>
          if status_value (status_code handshake_response) \<noteq> 101
          then (Inl (GurtHandshakeError,
                     ''Handshake failed: '' @ str_int (status_value (status_code handshake_response))
                       @ '' '' @ status_message handshake_response), s)
          else
            (case wrap_socket (ssl_context client) s host of
               (Inl e, s') \<Rightarrow> (Inl e, s')
             | (Inr selected_alpn, s') \<Rightarrow>
                 if selected_alpn \<noteq> Some GURT_ALPN
                 then (Inl (GurtTLSError,
                            ''ALPN negotiation failed. Expected b'' @ [CHR 0x27] @ GURT_ALPN
                              @ [CHR 0x27] @ '', got ''
                              @ (case selected_alpn of None \<Rightarrow> ''None'' | Some a \<Rightarrow> a)), s')
                 else (Inr GURT_ALPN, s')))"

text \<open>
  The \<open>except\<close> clauses of \<open>_perform_handshake\<close>, in their order: \<open>socket.timeout\<close>,
  \<open>ssl.SSLError\<close>, then any other exception, which is raised again when it is one of
  three of the client's kinds and wrapped otherwise.
\<close>
definition handshake_except :: "exn \<Rightarrow> exn" where
  "handshake_except e =
     (if fst e = SocketTimeout then (GurtTimeoutError, ''Handshake timeout'')
      else if fst e = SSLError then (GurtTLSError, ''TLS handshake failed: '' @ snd e)
      else if fst e \<in> set [GurtHandshakeError, GurtTLSError, GurtTimeoutError] then e
      else (GurtHandshakeError, ''Handshake failed: '' @ snd e))"

text \<open>\<open>GurtClient._perform_handshake\<close>\<close>
definition perform_handshake ::
  "GurtClient \<Rightarrow> socket \<Rightarrow> string \<Rightarrow> (exn + string) \<times> socket" where
  "perform_handshake client sock host =
     (case handshake_steps client sock host of
        (Inl e, s) \<Rightarrow> (Inl (handshake_except e), s)
      | (Inr tls, s) \<Rightarrow> (Inr tls, s))"

text \<open>The calls that wrap the socket in TLS, among the calls made on it.\<close>
fun is_wrap :: "action \<Rightarrow> bool" where
  "is_wrap (WrapSocket h) = True"
| "is_wrap a = False"

definition upgrades :: "socket \<Rightarrow> action list" where
  "upgrades s = filter is_wrap (calls s)"


text \<open>
  A fresh socket on which the given chunks arrive, one for each \<open>recv\<close>, before the peer
  closes; \<open>sendall\<close> succeeds and the TLS layer selects the GURT protocol.
\<close>
definition socket_of :: "string list \<Rightarrow> socket" where
  "socket_of chunks =
     \<lparr>incoming = map Data chunks, sendall_error = None, wrap_result = Inr (Some GURT_ALPN),
      calls = []\<rparr>"

text \<open>The client that \<open>GurtClient()\<close> constructs.\<close>
definition default_client :: GurtClient where
  "default_client =
     \<lparr>config = GurtClientConfig_default,
      ssl_context = \<lparr>minimum_version = TLSv1_3, maximum_version = TLSv1_3,
                      alpn_protocols = [GURT_ALPN], check_hostname = False,
                      verify_mode = CERT_NONE\<rparr>\<rparr>"


section \<open>Addresses\<close>

text \<open>
  An address of the form \<open>gurt://host[:port][path][?query]\<close>, from its parts.
\<close>
definition gurt_url :: "string \<Rightarrow> string option \<Rightarrow> string \<Rightarrow> string option \<Rightarrow> string" where
  "gurt_url host port_text pth query =
     ''gurt://'' @ host @ (case port_text of None \<Rightarrow> [] | Some p \<Rightarrow> '':'' @ p) @ pth
       @ (case query of None \<Rightarrow> [] | Some q \<Rightarrow> ''?'' @ q)"

text \<open>
  The characters of a plain host name: ASCII, none of the delimiters \<open>/ ? # : @ [ ] %\<close> of
  a URL, and none of the characters TAB, CR and LF that \<open>urlsplit\<close> removes. The
  characters of a path (ASCII, not \<open>?\<close>, \<open>#\<close>, TAB, CR or LF) and of a query (ASCII, not
  \<open>#\<close>, TAB, CR or LF) likewise.
\<close>
definition host_char :: "char \<Rightarrow> bool" where
  "host_char c \<longleftrightarrow> ascii_char c \<and> c \<notin> set ''/?#:@[]%'' \<and> \<not> unsafe_url_byte c"

definition path_char :: "char \<Rightarrow> bool" where
  "path_char c \<longleftrightarrow> ascii_char c \<and> c \<notin> set ''?#'' \<and> \<not> unsafe_url_byte c"

definition query_char :: "char \<Rightarrow> bool" where
  "query_char c \<longleftrightarrow> ascii_char c \<and> c \<noteq> CHR ''#'' \<and> \<not> unsafe_url_byte c"

text \<open>A check of bracketed hosts that rejects none (for addresses without brackets).\<close>
definition accept_any :: "string \<Rightarrow> string option" where
  "accept_any h = None"


section \<open>Headers that survive the wire\<close>






section \<open>Facts about the text functions\<close>

lemma ascii_Nil [simp]: "ascii []"
  by (simp add: ascii_def)

lemma ascii_Cons [simp]: "ascii (c # s) \<longleftrightarrow> ascii_char c \<and> ascii s"
  by (simp add: ascii_def)

lemma ascii_append [simp]: "ascii (a @ b) \<longleftrightarrow> ascii a \<and> ascii b"
  by (simp add: ascii_def)



lemma utf8_error_ascii: "ascii s \<Longrightarrow> utf8_error i s = None"
  by (induction i s rule: utf8_error.induct) (simp_all add: ascii_char_def)

lemma decode_utf8_ascii: "ascii s \<Longrightarrow> decode_utf8 s = Inr s"
  by (simp add: decode_utf8_def utf8_error_ascii)


lemma decode_utf8_kind: "decode_utf8 s = Inl e \<Longrightarrow> fst e = PyException"
  by (auto simp: decode_utf8_def split: option.splits)

lemma splitn_not_Nil: "splitn n sep s \<noteq> []"
  by (cases n) (auto split: option.splits)

lemma header_lines_not_Nil: "header_lines data \<noteq> []"
  by (simp add: header_lines_def split_def splitn_not_Nil)


lemma split_once_skip:
  "c0 \<notin> set l \<Longrightarrow> split_once (c0 # sep) (l @ rest) = map_option (\<lambda>(a, b). (l @ a, b)) (split_once (c0 # sep) rest)"
proof (induction l)
  case Nil
  show ?case by (cases "split_once (c0 # sep) rest") auto
next
  case (Cons x l)
  then show ?case by (cases "split_once (c0 # sep) rest") auto
qed


lemma split_once_none: "c0 \<notin> set l \<Longrightarrow> split_once (c0 # sep) l = None"
  by (induction l) auto











section \<open>Facts about header blocks\<close>




































section \<open>Facts about URL parsing\<close>

lemma takeWhile_dropWhile_stop:
  assumes "\<forall>c\<in>set a. P c" "b = [] \<or> \<not> P (hd b)"
  shows "takeWhile P (a @ b) = a" "dropWhile P (a @ b) = b"
  using assms by (cases b; simp)+

lemma clean_url_gurt:
  "clean_url (''gurt://'' @ rest) = ''gurt://'' @ filter (\<lambda>c. \<not> unsafe_url_byte c) rest"
  by (simp add: clean_url_def c0_control_or_space_def unsafe_url_byte_def CR_def LF_def)

lemma gurt_scheme_facts:
  "hd ''gurt'' \<in> set (lower_letters @ upper_letters)"
  "list_all (\<lambda>c. c \<in> set scheme_chars) ''gurt''"
  "lower ''gurt'' = ''gurt''"
  "''gurt'' \<notin> set uses_params"
  by code_simp+

lemma split_scheme_gurt: "split_scheme (''gurt://'' @ rest) = (''gurt'', ''//'' @ rest)"
proof -
  have "split_once '':'' (''gurt://'' @ rest) = Some (''gurt'', ''//'' @ rest)" by simp
  then show ?thesis
    unfolding split_scheme_def using gurt_scheme_facts(1,2,3) by simp
qed

lemma urlsplit_gurt:
  assumes "\<forall>c\<in>set netloc. c \<notin> set ''/?#[]''"
    and "tail = [] \<or> hd tail \<in> set ''/?#''"
    and "filter (\<lambda>c. \<not> unsafe_url_byte c) rest = netloc @ tail"
  shows "urlsplit chk (''gurt://'' @ rest) =
     Inr \<lparr>url_scheme = ''gurt'', url_netloc = netloc,
          url_path = fst (split_fragment_query tail), url_params = [],
          url_query = fst (snd (split_fragment_query tail)),
          url_fragment = snd (snd (split_fragment_query tail))\<rparr>"
proof -
  have p1: "\<forall>c\<in>set netloc. c \<notin> set ''/?#''" using assms(1) by auto
  have p2: "tail = [] \<or> \<not> hd tail \<notin> set ''/?#''" using assms(2) by auto
  have tw: "takeWhile (\<lambda>c. c \<notin> set ''/?#'') (netloc @ tail) = netloc"
    using p1 p2 by (rule takeWhile_dropWhile_stop(1))
  have dw: "dropWhile (\<lambda>c. c \<notin> set ''/?#'') (netloc @ tail) = tail"
    using p1 p2 by (rule takeWhile_dropWhile_stop(2))
  have sn: "splitnetloc (''//'' @ netloc @ tail) = (netloc, tail)"
    by (simp add: splitnetloc_def tw [simplified] dw [simplified])
  have b1: "CHR ''['' \<notin> set netloc" "CHR '']'' \<notin> set netloc"
    using assms(1) by simp_all blast+
  have br: "check_brackets chk netloc = None"
    by (simp add: check_brackets_def b1)
  have t2: "take 2 (''//'' @ netloc @ tail) = ''//''" by simp
  obtain u q f where sfq: "split_fragment_query tail = (u, q, f)"
    by (cases "split_fragment_query tail") auto
  show ?thesis
    unfolding urlsplit_def clean_url_gurt assms(3) split_scheme_gurt
    by (simp only: prod.case Let_def t2 if_True simp_thms sn br option.case sfq fst_conv snd_conv)
qed

lemma no_at_hostinfo:
  assumes "CHR ''@'' \<notin> set n"
  shows "rev (takeWhile (\<lambda>c. c \<noteq> CHR ''@'') (rev n)) = n"
proof -
  have tw: "takeWhile (\<lambda>c. c \<noteq> CHR ''@'') (rev n) = rev n"
    unfolding takeWhile_eq_all_conv using assms by auto
  show ?thesis unfolding tw by (rule rev_rev_ident)
qed

lemma split_once_char_none: "c \<notin> set s \<Longrightarrow> split_once [c] s = None"
  by (rule split_once_none)

lemma split_once_char_at: "c \<notin> set a \<Longrightarrow> split_once [c] (a @ c # b) = Some (a, b)"
  using split_once_skip [of c a "[]" "c # b"] by simp

lemma hostinfo_plain:
  assumes "\<forall>c\<in>set host. c \<notin> set ''@[:''" "\<forall>c\<in>set p. c \<notin> set ''@[:''"
  shows "url_netloc r = host \<Longrightarrow> hostinfo r = (host, None)"
    and "p \<noteq> [] \<Longrightarrow> url_netloc r = host @ '':'' @ p \<Longrightarrow> hostinfo r = (host, Some p)"
proof -
  have h: "CHR ''@'' \<notin> set host" "CHR ''['' \<notin> set host" "CHR '':'' \<notin> set host"
    using assms(1) by simp_all blast+
  have q: "CHR ''@'' \<notin> set p" "CHR ''['' \<notin> set p"
    using assms(2) by simp_all blast+
  show "hostinfo r = (host, None)" if "url_netloc r = host"
    using that
    by (simp add: hostinfo_def no_at_hostinfo h split_once_char_none del: split_once.simps)
  assume p: "p \<noteq> []" and r: "url_netloc r = host @ '':'' @ p"
  have at: "CHR ''@'' \<notin> set (host @ '':'' @ p)" using h q by simp
  have br: "split_once ''['' (host @ '':'' @ p) = None"
    using h q by (intro split_once_char_none) simp
  have co: "split_once '':'' (host @ '':'' @ p) = Some (host, p)"
    using split_once_char_at [OF h(3)] by simp
  show "hostinfo r = (host, Some p)"
    using p r
    by (simp add: hostinfo_def no_at_hostinfo [OF at, simplified] br [simplified] co [simplified]
        del: split_once.simps)
qed

lemma digit_chars:
  assumes "list_all is_digit p"
  shows "\<forall>c\<in>set p. c \<notin> set ''/?#[]@:%'' \<and> \<not> unsafe_url_byte c"
proof -
  have "c \<notin> set ''/?#[]@:%'' \<and> \<not> unsafe_url_byte c" if "c \<in> set digits" for c
    using that by (auto simp: digits_def unsafe_url_byte_def CR_def LF_def)
  with assms show ?thesis by (auto simp: list_all_iff is_digit_def)
qed

lemma filter_safe: "\<forall>c\<in>set s. \<not> unsafe_url_byte c \<Longrightarrow> filter (\<lambda>c. \<not> unsafe_url_byte c) s = s"
  by (induction s) auto

lemma split_fragment_query_plain:
  assumes "\<forall>c\<in>set pth. c \<notin> set ''?#''" "\<forall>c\<in>set q. c \<noteq> CHR ''#''"
  shows "split_fragment_query pth = (pth, [], [])"
    and "split_fragment_query (pth @ ''?'' @ q) = (pth, q, [])"
proof -
  have a: "CHR ''#'' \<notin> set pth" "CHR ''?'' \<notin> set pth" using assms(1) by simp_all blast+
  have b: "CHR ''#'' \<notin> set q" using assms(2) by blast
  have "split_once ''#'' pth = None" "split_once ''?'' pth = None"
    using a by (simp_all add: split_once_char_none)
  then show "split_fragment_query pth = (pth, [], [])"
    unfolding split_fragment_query_def by (simp only: option.case prod.case Let_def)
  have "split_once ''#'' (pth @ ''?'' @ q) = None"
    using a b by (intro split_once_char_none) simp
  moreover have "split_once ''?'' (pth @ ''?'' @ q) = Some (pth, q)"
    using split_once_char_at [OF a(2)] by simp
  ultimately show "split_fragment_query (pth @ ''?'' @ q) = (pth, q, [])"
    unfolding split_fragment_query_def by (simp only: option.case prod.case Let_def)
qed

lemma url_resolution_aux:
  assumes host: "host \<noteq> []" "list_all host_char host"
    and prt: "case port_text of None \<Rightarrow> True
              | Some p \<Rightarrow> p \<noteq> [] \<and> list_all is_digit p \<and> int (length p) \<le> 4300
                         \<and> int_of_digits p \<le> 65535"
    and pth: "pth = [] \<or> hd pth = CHR ''/''" "list_all path_char pth"
    and qry: "case query of None \<Rightarrow> True | Some q \<Rightarrow> list_all query_char q"
  shows "parse_gurt_url chk (gurt_url host port_text pth query) =
     Inr (lower host,
          (case port_text of
             None \<Rightarrow> DEFAULT_PORT
           | Some p \<Rightarrow> if int_of_digits p = 0 then DEFAULT_PORT else int_of_digits p),
          (if pth = [] then ''/'' else pth)
            @ (case query of None \<Rightarrow> [] | Some q \<Rightarrow> if q = [] then [] else ''?'' @ q))"
proof -
  define ptext where "ptext = (case port_text of None \<Rightarrow> [] | Some p \<Rightarrow> p)"
  define netloc where "netloc = host @ (case port_text of None \<Rightarrow> [] | Some p \<Rightarrow> '':'' @ p)"
  define qtext where "qtext = (case query of None \<Rightarrow> [] | Some q \<Rightarrow> q)"
  define tail where "tail = pth @ (case query of None \<Rightarrow> [] | Some q \<Rightarrow> ''?'' @ q)"
  have url: "gurt_url host port_text pth query = ''gurt://'' @ netloc @ tail"
    by (simp add: gurt_url_def netloc_def tail_def)
  have hc: "\<forall>c\<in>set host. c \<notin> set ''/?#:@[]%'' \<and> \<not> unsafe_url_byte c"
    using host(2) by (simp add: list_all_iff host_char_def)
  have pc: "\<forall>c\<in>set ptext. c \<notin> set ''/?#[]@:%'' \<and> \<not> unsafe_url_byte c"
  proof (cases port_text)
    case None
    then show ?thesis by (simp add: ptext_def)
  next
    case (Some p)
    then have "list_all is_digit p" using prt by simp
    then have "\<forall>c\<in>set p. c \<notin> set ''/?#[]@:%'' \<and> \<not> unsafe_url_byte c"
      by (rule digit_chars)
    then show ?thesis unfolding ptext_def Some by (simp only: option.case)
  qed
  have tc: "\<forall>c\<in>set pth. c \<notin> set ''?#'' \<and> \<not> unsafe_url_byte c"
    using pth(2) by (simp add: list_all_iff path_char_def)
  have qc: "\<forall>c\<in>set qtext. c \<noteq> CHR ''#'' \<and> \<not> unsafe_url_byte c"
    using qry by (cases query) (simp_all add: qtext_def list_all_iff query_char_def)
  have colon: "\<not> unsafe_url_byte (CHR '':'')" "\<not> unsafe_url_byte (CHR ''?'')"
    by (simp_all add: unsafe_url_byte_def CR_def LF_def)
  have nl: "\<forall>c\<in>set netloc. c \<notin> set ''/?#[]''"
    using hc pc by (cases port_text) (simp_all add: netloc_def ptext_def ball_Un)
  have hs: "\<forall>c\<in>set host. \<not> unsafe_url_byte c" using hc by blast
  have ps: "\<forall>c\<in>set ptext. \<not> unsafe_url_byte c" using pc by blast
  have ts: "\<forall>c\<in>set pth. \<not> unsafe_url_byte c" using tc by blast
  have qs: "\<forall>c\<in>set qtext. \<not> unsafe_url_byte c" using qc by blast
  have safe: "\<forall>c\<in>set (netloc @ tail). \<not> unsafe_url_byte c"
    using hs ps ts qs colon
    by (cases port_text; cases query)
      (simp_all add: netloc_def tail_def ptext_def qtext_def ball_Un)
  have tl: "tail = [] \<or> hd tail \<in> set ''/?#''"
  proof (cases pth)
    case Nil
    then show ?thesis by (cases query) (simp_all add: tail_def)
  next
    case (Cons x xs)
    then show ?thesis using pth(1) by (simp add: tail_def)
  qed
  have flt: "filter (\<lambda>c. \<not> unsafe_url_byte c) (netloc @ tail) = netloc @ tail"
    using safe by (rule filter_safe)
  have tc': "\<forall>c\<in>set pth. c \<notin> set ''?#''" using tc by blast
  have qc': "\<forall>c\<in>set qtext. c \<noteq> CHR ''#''" using qc by blast
  have sfq: "split_fragment_query tail = (pth, qtext, [])"
  proof (cases query)
    case None
    then show ?thesis
      using split_fragment_query_plain(1) [OF tc' qc'] by (simp add: tail_def qtext_def)
  next
    case (Some q)
    then show ?thesis
      using split_fragment_query_plain(2) [OF tc' qc'] by (simp add: tail_def qtext_def)
  qed
  define r where "r = \<lparr>url_scheme = ''gurt'', url_netloc = netloc, url_path = pth,
          url_params = [], url_query = qtext, url_fragment = []\<rparr>"
  have "urlsplit chk (''gurt://'' @ netloc @ tail) = Inr r"
    using urlsplit_gurt [OF nl tl flt, of chk] by (simp add: sfq r_def)
  then have up: "urlparse chk (''gurt://'' @ netloc @ tail) = Inr r"
    using gurt_scheme_facts(4) by (simp add: urlparse_def r_def)
  have hc': "\<forall>c\<in>set host. c \<notin> set ''@[:''" using hc by simp
  have pc': "\<forall>c\<in>set ptext. c \<notin> set ''@[:''" using pc by simp
  have hi: "hostinfo r = (host, port_text)"
  proof (cases port_text)
    case None
    then show ?thesis using hostinfo_plain(1) [OF hc' pc', of r] by (simp add: r_def netloc_def)
  next
    case (Some p)
    then have "p \<noteq> []" "ptext = p" using prt by (simp_all add: ptext_def)
    then show ?thesis
      using hostinfo_plain(2) [OF hc' pc', of r] Some by (simp add: r_def netloc_def)
  qed
  have "CHR ''%'' \<notin> set host" using hc by simp blast
  then have "split_once ''%'' host = None" by (rule split_once_char_none)
  then have hn: "hostname r = Some (lower host)"
    using host(1) by (simp add: hostname_def hi)
  have po: "port r = Inr (map_option (\<lambda>p. int_of_digits p) port_text)"
    using prt by (cases port_text) (simp_all add: port_def hi)
  have sw: "startswith (''gurt://'' @ netloc @ tail) ''gurt://''"
    by (simp add: startswith_def)
  have rp: "url_path r = pth" "url_query r = qtext" by (simp_all add: r_def)
  show ?thesis
    unfolding url parse_gurt_url_def
    apply (simp only: sw up hn po rp sum.case option.case simp_thms if_False Let_def)
    apply (cases port_text; cases query; simp add: qtext_def)
    done
qed

lemma url_no_host_aux:
  assumes "rest = [] \<or> hd rest \<in> set ''/?#''"
  shows "parse_gurt_url chk (''gurt://'' @ rest) =
           Inl (GurtError, ''URL must have a hostname: gurt://'' @ rest)"
proof -
  define tail where "tail = filter (\<lambda>c. \<not> unsafe_url_byte c) rest"
  have tl: "tail = [] \<or> hd tail \<in> set ''/?#''"
  proof (cases rest)
    case Nil
    then show ?thesis by (simp add: tail_def)
  next
    case (Cons x xs)
    with assms have "x \<in> set ''/?#''" by simp
    then have "\<not> unsafe_url_byte x"
      by (auto simp: unsafe_url_byte_def CR_def LF_def)
    with Cons \<open>x \<in> set ''/?#''\<close> show ?thesis by (simp add: tail_def)
  qed
  define r where "r = \<lparr>url_scheme = ''gurt'', url_netloc = [],
          url_path = fst (split_fragment_query tail), url_params = [],
          url_query = fst (snd (split_fragment_query tail)),
          url_fragment = snd (snd (split_fragment_query tail))\<rparr>"
  have flt: "filter (\<lambda>c. \<not> unsafe_url_byte c) rest = [] @ tail" by (simp add: tail_def)
  have nl: "\<forall>c\<in>set []. c \<notin> set ''/?#[]''" by simp
  have "urlsplit chk (''gurt://'' @ rest) = Inr r"
    unfolding r_def by (rule urlsplit_gurt [OF nl tl flt])
  then have up: "urlparse chk (''gurt://'' @ rest) = Inr r"
    using gurt_scheme_facts(4) by (simp add: urlparse_def r_def)
  have "hostinfo r = ([], None)"
    using hostinfo_plain(1) [of "[]" "[]" r] by (simp add: r_def)
  then have hn: "hostname r = None" by (simp add: hostname_def)
  have sw: "startswith (''gurt://'' @ rest) ''gurt://''"
    by (simp add: startswith_def)
  have "parse_gurt_url chk (''gurt://'' @ rest) =
          Inl (GurtError, ''URL must have a hostname: '' @ ''gurt://'' @ rest)"
    unfolding parse_gurt_url_def
    by (simp only: sw up hn sum.case option.case simp_thms if_False)
  then show ?thesis by simp
qed


section \<open>Decode rejections\<close>

text \<open>
  C5 as stated fails: the input \<open>INVALID\<close>, a space and the byte 0xFF has a first line
  of two tokens, but the request decoder does not reach its checks: decoding the header
  text raises \<open>UnicodeDecodeError\<close>, which is not a \<open>GurtProtocolError\<close>.
\<close>
theorem decode_rejections_counterexample:
  "request_line_parts (''INVALID '' @ [CHR 0xFF]) = [''INVALID'', [CHR 0xFF]]
   \<and> GurtRequest_parse (''INVALID '' @ [CHR 0xFF]) =
       Inl (PyException,
            [CHR 0x27] @ ''utf-8'' @ [CHR 0x27] @ '' codec can'' @ [CHR 0x27]
              @ ''t decode byte 0xff in position 8: invalid start byte'')"
  by code_simp

text \<open>The response decoder likewise, on a status line that ends in the byte 0xFF.\<close>
lemma decode_rejections_response_bytes:
  "GurtResponse_parse (''HTTP/1.1 200 '' @ [CHR 0xFF]) =
     Inl (PyException,
          [CHR 0x27] @ ''utf-8'' @ [CHR 0x27] @ '' codec can'' @ [CHR 0x27]
            @ ''t decode byte 0xff in position 13: invalid start byte'')"
  by code_simp

text \<open>
  C5, amended: for every input whose header text (the bytes before the first blank line,
  or the whole input when there is none) is ASCII, request decoding fails with
  \<open>GurtProtocolError\<close> when the first line does not have exactly three
  whitespace-separated tokens, when its first token is none of the eight methods, and when
  its third token does not start with \<open>GURT/\<close>; response decoding fails with
  \<open>GurtProtocolError\<close> when the status line, cut at its first two spaces, has fewer than
  two tokens, when its first token does not start with \<open>GURT/\<close>, and when its second
  token is not the integer of a known status code. The three messages of each decoder
  differ from one another.
\<close>
theorem decode_rejections:
  assumes "ascii (fst (split_body data))"
  shows
  "(length (request_line_parts data) \<noteq> 3 \<longrightarrow>
      GurtRequest_parse data = Inl (GurtProtocolError, ''Invalid request line format''))
   \<and> (length (request_line_parts data) = 3
        \<and> method_of_token (request_line_parts data ! 0) = None \<longrightarrow>
      GurtRequest_parse data =
        Inl (GurtProtocolError, ''Unsupported method: '' @ request_line_parts data ! 0))
   \<and> (length (request_line_parts data) = 3
        \<and> method_of_token (request_line_parts data ! 0) \<noteq> None
        \<and> \<not> startswith (request_line_parts data ! 2) PROTOCOL_PREFIX \<longrightarrow>
      GurtRequest_parse data = Inl (GurtProtocolError, ''Invalid protocol identifier''))
   \<and> (length (status_line_parts data) < 2 \<longrightarrow>
      GurtResponse_parse data = Inl (GurtProtocolError, ''Invalid status line format''))
   \<and> (length (status_line_parts data) \<ge> 2
        \<and> \<not> startswith (status_line_parts data ! 0) PROTOCOL_PREFIX \<longrightarrow>
      GurtResponse_parse data = Inl (GurtProtocolError, ''Invalid protocol identifier''))
   \<and> (length (status_line_parts data) \<ge> 2
        \<and> startswith (status_line_parts data ! 0) PROTOCOL_PREFIX
        \<and> Option.bind (py_int (status_line_parts data ! 1)) status_of_int = None \<longrightarrow>
      GurtResponse_parse data =
        Inl (GurtProtocolError, ''Invalid status code: '' @ status_line_parts data ! 1))
   \<and> distinct [''Invalid request line format'', ''Unsupported method: '' @ t,
                ''Invalid protocol identifier'']
   \<and> distinct [''Invalid status line format'', ''Invalid protocol identifier'',
                ''Invalid status code: '' @ t]"
proof -
  obtain hp bp where sb: "split_body data = (hp, bp)" by (cases "split_body data")
  with assms have dec: "decode_utf8 hp = Inr hp" by (simp add: decode_utf8_ascii)
  have ne: "split HEADER_SEPARATOR hp \<noteq> []" by (simp add: split_def splitn_not_Nil)
  show ?thesis
    by (auto simp add: GurtRequest_parse_def GurtResponse_parse_def request_line_parts_def
        status_line_parts_def header_lines_def sb dec ne Let_def)
qed

theorem decode_rejections_witness:
  "GurtRequest_parse ''INVALID REQUEST'' =
     Inl (GurtProtocolError, ''Invalid request line format'')
   \<and> GurtRequest_parse ''FETCH /test GURT/1.0.0'' =
     Inl (GurtProtocolError, ''Unsupported method: FETCH'')
   \<and> GurtRequest_parse ''GET /test HTTP/1.1'' =
     Inl (GurtProtocolError, ''Invalid protocol identifier'')
   \<and> GurtResponse_parse ''GURT/1.0.0'' =
     Inl (GurtProtocolError, ''Invalid status line format'')
   \<and> GurtResponse_parse ''HTTP/1.1 200 OK'' =
     Inl (GurtProtocolError, ''Invalid protocol identifier'')
   \<and> GurtResponse_parse ''GURT/1.0.0 299 OK'' =
     Inl (GurtProtocolError, ''Invalid status code: 299'')"
proof -
  have a: "request_line_parts ''INVALID REQUEST'' = [''INVALID'', ''REQUEST'']"
    and a': "ascii (fst (split_body ''INVALID REQUEST''))"
    by code_simp+
  have b: "request_line_parts ''FETCH /test GURT/1.0.0'' = [''FETCH'', ''/test'', ''GURT/1.0.0'']"
    and b': "method_of_token ''FETCH'' = None"
    and b'': "ascii (fst (split_body ''FETCH /test GURT/1.0.0''))"
    by code_simp+
  have c: "request_line_parts ''GET /test HTTP/1.1'' = [''GET'', ''/test'', ''HTTP/1.1'']"
    and c': "method_of_token ''GET'' = Some GET"
    and c'': "\<not> startswith ''HTTP/1.1'' PROTOCOL_PREFIX"
    and c''': "ascii (fst (split_body ''GET /test HTTP/1.1''))"
    by code_simp+
  have d: "status_line_parts ''GURT/1.0.0'' = [''GURT/1.0.0'']"
    and d': "ascii (fst (split_body ''GURT/1.0.0''))"
    by code_simp+
  have e: "status_line_parts ''HTTP/1.1 200 OK'' = [''HTTP/1.1'', ''200'', ''OK'']"
    and e': "ascii (fst (split_body ''HTTP/1.1 200 OK''))"
    by code_simp+
  have f: "status_line_parts ''GURT/1.0.0 299 OK'' = [''GURT/1.0.0'', ''299'', ''OK'']"
    and f': "startswith ''GURT/1.0.0'' PROTOCOL_PREFIX"
    and f'': "Option.bind (py_int ''299'') status_of_int = None"
    and f''': "ascii (fst (split_body ''GURT/1.0.0 299 OK''))"
    by code_simp+
  show ?thesis
    using decode_rejections [OF a'] decode_rejections [OF b''] decode_rejections [OF c''']
      decode_rejections [OF d'] decode_rejections [OF e'] decode_rejections [OF f''']
    by (simp add: a b b' c c' c'' d e f f' f'')
qed


section \<open>Request round trip\<close>


text \<open>
  Why the amended claim says more about the headers: the encoder adds \<open>content-length\<close>
  and \<open>user-agent\<close> when they are absent, the decoder cuts a line at its first colon, and
  a key that is not in lower case can collide with a default.
\<close>
lemma request_roundtrip_adds_defaults:
  "GurtRequest_parse (GurtRequest_to_bytes (GurtRequest_init GET ''/'' ''1.0.0'')) =
     Inr ((GurtRequest_init GET ''/'' ''1.0.0'')
            \<lparr>headers := [(''content-length'', ''0''),
                         (''user-agent'', ''GURT-Python-Client/1.0.0'')]\<rparr>)"
  by code_simp

lemma request_roundtrip_colon_in_key:
  "GurtRequest_parse
     (GurtRequest_to_bytes (with_header (GurtRequest_init GET ''/'' ''1.0.0'') ''a:b'' ''c'')) =
     Inr ((GurtRequest_init GET ''/'' ''1.0.0'')
            \<lparr>headers := [(''a'', ''b: c''), (''content-length'', ''0''),
                         (''user-agent'', ''GURT-Python-Client/1.0.0'')]\<rparr>)"
  by code_simp

lemma request_roundtrip_upper_case_key:
  "GurtRequest_parse
     (GurtRequest_to_bytes ((GurtRequest_init GET ''/'' ''1.0.0'')
                              \<lparr>headers := [(''Content-Length'', ''5'')]\<rparr>)) =
     Inr ((GurtRequest_init GET ''/'' ''1.0.0'')
            \<lparr>headers := [(''content-length'', ''0''),
                         (''user-agent'', ''GURT-Python-Client/1.0.0'')]\<rparr>)"
  by code_simp




section \<open>Response round trip\<close>


text \<open>
  The status line is cut at its first two spaces, so a version with a space moves every
  token: the decoder then reads the second half of the version as the status code.
\<close>
lemma response_roundtrip_space_in_version:
  "GurtResponse_parse
     (GurtResponse_to_bytes ''Wed, 04 Nov 2026 10:00:00 GMT'' (GurtResponse_init OK ''1 0'')) =
     Inl (GurtProtocolError, ''Invalid status code: 0'')"
  by code_simp




section \<open>URL resolution\<close>

text \<open>
  C6 as stated fails: the address \<open>gurt://Example.COM/test\<close> has the stated form,
  but the host that is returned is \<open>example.com\<close>, in lower case, not the host of the
  address.
\<close>
theorem url_resolution_counterexample:
  "parse_gurt_url accept_any ''gurt://Example.COM/test'' = Inr (''example.com'', 4878, ''/test'')"
  by code_simp

text \<open>
  The port \<open>0\<close> is replaced by the default port, a port above 65535 and a port that is
  not a number are errors of the library (not of the client), and a fragment is dropped.
\<close>
lemma url_resolution_port_zero:
  "parse_gurt_url accept_any ''gurt://localhost:0/'' = Inr (''localhost'', 4878, ''/'')"
  by code_simp

lemma url_resolution_port_out_of_range:
  "parse_gurt_url accept_any ''gurt://localhost:99999/'' =
     Inl (PyException, ''Port out of range 0-65535'')"
  by code_simp

lemma url_resolution_port_not_a_number:
  "parse_gurt_url accept_any ''gurt://localhost:8x/'' =
     Inl (PyException, ''Port could not be cast to integer value as '' @ [CHR 0x27] @ ''8x''
                         @ [CHR 0x27])"
  by code_simp

lemma url_resolution_fragment:
  "parse_gurt_url accept_any ''gurt://localhost/a?b#c'' = Inr (''localhost'', 4878, ''/a?b'')"
  by code_simp

text \<open>
  C6, amended: for every address \<open>gurt://host[:port][path][?query]\<close> whose host is
  not empty and made of ASCII characters other than \<open>/ ? # : @ [ ] %\<close>, TAB, CR and LF,
  whose port is a text of one to 4300 decimal digits with a value up to 65535, whose path
  is empty or starts with a slash and is made of ASCII characters other than \<open>?\<close>,
  \<open>#\<close>, TAB, CR and LF, and whose query is made of ASCII characters other than \<open>#\<close>,
  TAB, CR and LF, the result is the host in lower case, the port (4878 when it is absent
  or 0), and the path (\<open>/\<close> when it is empty) followed by \<open>?\<close> and the query when the
  query is not empty. The four example addresses give the four example triples.
\<close>
theorem url_resolution:
  "(host \<noteq> [] \<and> list_all host_char host
      \<and> (case port_text of
            None \<Rightarrow> True
          | Some p \<Rightarrow> p \<noteq> [] \<and> list_all is_digit p \<and> int (length p) \<le> 4300
                     \<and> int_of_digits p \<le> 65535)
      \<and> (pth = [] \<or> hd pth = CHR ''/'') \<and> list_all path_char pth
      \<and> (case query of None \<Rightarrow> True | Some q \<Rightarrow> list_all query_char q) \<longrightarrow>
    parse_gurt_url chk (gurt_url host port_text pth query) =
      Inr (lower host,
           (case port_text of
              None \<Rightarrow> DEFAULT_PORT
            | Some p \<Rightarrow> if int_of_digits p = 0 then DEFAULT_PORT else int_of_digits p),
           (if pth = [] then ''/'' else pth)
             @ (case query of None \<Rightarrow> [] | Some q \<Rightarrow> if q = [] then [] else ''?'' @ q)))
   \<and> parse_gurt_url chk ''gurt://example.com/test'' = Inr (''example.com'', 4878, ''/test'')
   \<and> parse_gurt_url chk ''gurt://localhost:8080/api/data'' = Inr (''localhost'', 8080, ''/api/data'')
   \<and> parse_gurt_url chk ''gurt://api.example.com/search?q=test&limit=10'' =
       Inr (''api.example.com'', 4878, ''/search?q=test&limit=10'')
   \<and> parse_gurt_url chk ''gurt://localhost'' = Inr (''localhost'', 4878, ''/'')"
proof -
  have 1: "parse_gurt_url chk (gurt_url ''example.com'' None ''/test'' None) =
             Inr (''example.com'', 4878, ''/test'')"
    by (subst url_resolution_aux; code_simp)
  have 2: "parse_gurt_url chk (gurt_url ''localhost'' (Some ''8080'') ''/api/data'' None) =
             Inr (''localhost'', 8080, ''/api/data'')"
    by (subst url_resolution_aux; code_simp)
  have 3: "parse_gurt_url chk
             (gurt_url ''api.example.com'' None ''/search'' (Some ''q=test&limit=10'')) =
             Inr (''api.example.com'', 4878, ''/search?q=test&limit=10'')"
    by (subst url_resolution_aux; code_simp)
  have 4: "parse_gurt_url chk (gurt_url ''localhost'' None [] None) =
             Inr (''localhost'', 4878, ''/'')"
    by (subst url_resolution_aux; code_simp)
  have 1: "parse_gurt_url chk ''gurt://example.com/test'' = Inr (''example.com'', 4878, ''/test'')"
    using 1 by (simp add: gurt_url_def)
  have 2: "parse_gurt_url chk ''gurt://localhost:8080/api/data'' =
             Inr (''localhost'', 8080, ''/api/data'')"
    using 2 by (simp add: gurt_url_def)
  have 3: "parse_gurt_url chk ''gurt://api.example.com/search?q=test&limit=10'' =
             Inr (''api.example.com'', 4878, ''/search?q=test&limit=10'')"
    using 3 by (simp add: gurt_url_def)
  have 4: "parse_gurt_url chk ''gurt://localhost'' = Inr (''localhost'', 4878, ''/'')"
    using 4 by (simp add: gurt_url_def)
  show ?thesis
    using url_resolution_aux [of host port_text pth query chk] 1 2 3 4
    by blast
qed

theorem url_resolution_witness:
  "parse_gurt_url accept_any ''gurt://LocalHost:8080/api/data?q=test'' =
     Inr (''localhost'', 8080, ''/api/data?q=test'')"
proof -
  have a: "''LocalHost'' \<noteq> [] \<and> list_all host_char ''LocalHost''
      \<and> (case Some ''8080'' of
            None \<Rightarrow> True
          | Some p \<Rightarrow> p \<noteq> [] \<and> list_all is_digit p \<and> int (length p) \<le> 4300
                     \<and> int_of_digits p \<le> 65535)
      \<and> (''/api/data'' = [] \<or> hd ''/api/data'' = CHR ''/'') \<and> list_all path_char ''/api/data''
      \<and> (case Some ''q=test'' of None \<Rightarrow> True | Some q \<Rightarrow> list_all query_char q)"
    by code_simp
  have b: "gurt_url ''LocalHost'' (Some ''8080'') ''/api/data'' (Some ''q=test'') =
             ''gurt://LocalHost:8080/api/data?q=test''"
    by code_simp
  have c: "(lower ''LocalHost'',
           (case Some ''8080'' of
              None \<Rightarrow> DEFAULT_PORT
            | Some p \<Rightarrow> if int_of_digits p = 0 then DEFAULT_PORT else int_of_digits p),
           (if ''/api/data'' = [] then ''/'' else ''/api/data'')
             @ (case Some ''q=test'' of None \<Rightarrow> [] | Some q \<Rightarrow> if q = [] then [] else ''?'' @ q))
          = (''localhost'', 8080, ''/api/data?q=test'')"
    by code_simp
  from url_resolution [of "''LocalHost''" "Some ''8080''" "''/api/data''" "Some ''q=test''" accept_any] a
  show ?thesis unfolding b c by blast
qed


section \<open>URL rejection\<close>

text \<open>
  C7 as stated fails: the error for a wrong scheme is raised as \<open>GurtError\<close>, the base
  class of the client's errors; the client has no class for URL errors.
\<close>
theorem url_rejection_counterexample:
  "parse_gurt_url accept_any ''https://example.com/'' =
     Inl (GurtError, ''URL must use gurt:// scheme: https://example.com/'')"
  by code_simp

text \<open>
  An address that \<open>urlparse\<close> itself rejects fails with the \<open>ValueError\<close> of the
  library, whatever its host: an unmatched bracket is such a case.
\<close>
lemma url_rejection_library_error:
  "parse_gurt_url chk ''gurt://[/x'' = Inl (PyException, ''Invalid IPv6 URL'')"
  by code_simp

text \<open>
  C7, amended: every address that does not start with \<open>gurt://\<close> fails with the base
  error \<open>GurtError\<close> and a message about the scheme; every address \<open>gurt://\<close>
  followed by nothing or by text that starts with \<open>/\<close>, \<open>?\<close> or \<open>#\<close>, and every
  ASCII address that starts with \<open>gurt://\<close>, that \<open>urlparse\<close> accepts and whose host
  name is empty, fails with \<open>GurtError\<close> and a message about the host name.
\<close>
theorem url_rejection:
  "(\<not> startswith url ''gurt://'' \<longrightarrow>
      parse_gurt_url chk url = Inl (GurtError, ''URL must use gurt:// scheme: '' @ url))
   \<and> (rest = [] \<or> hd rest \<in> set ''/?#'' \<longrightarrow>
      parse_gurt_url chk (''gurt://'' @ rest) =
        Inl (GurtError, ''URL must have a hostname: gurt://'' @ rest))
   \<and> (ascii url \<and> startswith url ''gurt://'' \<and> urlparse chk url = Inr parsed
        \<and> hostname parsed = None \<longrightarrow>
      parse_gurt_url chk url = Inl (GurtError, ''URL must have a hostname: '' @ url))"
proof (intro conjI impI)
  assume "\<not> startswith url ''gurt://''"
  then show "parse_gurt_url chk url = Inl (GurtError, ''URL must use gurt:// scheme: '' @ url)"
    unfolding parse_gurt_url_def by (simp only: simp_thms if_True)
next
  assume "rest = [] \<or> hd rest \<in> set ''/?#''"
  then show "parse_gurt_url chk (''gurt://'' @ rest) =
        Inl (GurtError, ''URL must have a hostname: gurt://'' @ rest)"
    by (rule url_no_host_aux)
next
  assume "ascii url \<and> startswith url ''gurt://'' \<and> urlparse chk url = Inr parsed
        \<and> hostname parsed = None"
  then show "parse_gurt_url chk url = Inl (GurtError, ''URL must have a hostname: '' @ url)"
    unfolding parse_gurt_url_def
    by (simp only: simp_thms if_False sum.case option.case)
qed

theorem url_rejection_witness:
  "parse_gurt_url accept_any ''http://example.com/'' =
     Inl (GurtError, ''URL must use gurt:// scheme: http://example.com/'')
   \<and> parse_gurt_url accept_any ''gurt:///path'' =
     Inl (GurtError, ''URL must have a hostname: gurt:///path'')
   \<and> parse_gurt_url accept_any ''gurt://:8080/path'' =
     Inl (GurtError, ''URL must have a hostname: gurt://:8080/path'')"
proof -
  have a: "\<not> startswith ''http://example.com/'' ''gurt://''" by code_simp
  have b: "hd ''/path'' \<in> set ''/?#''" by simp
  have c: "ascii ''gurt://:8080/path'' \<and> startswith ''gurt://:8080/path'' ''gurt://''"
    by code_simp
  have d: "urlparse accept_any ''gurt://:8080/path'' =
     Inr \<lparr>url_scheme = ''gurt'', url_netloc = '':8080'', url_path = ''/path'',
          url_params = [], url_query = [], url_fragment = []\<rparr>" by code_simp
  have e: "hostname \<lparr>url_scheme = ''gurt'', url_netloc = '':8080'', url_path = ''/path'',
          url_params = [], url_query = [], url_fragment = []\<rparr> = None" by code_simp
  show ?thesis
    using url_rejection [of "''http://example.com/''" accept_any "''/path''"]
      url_rejection [of "''gurt://:8080/path''" accept_any "[]"
        "\<lparr>url_scheme = ''gurt'', url_netloc = '':8080'', url_path = ''/path'',
          url_params = [], url_query = [], url_fragment = []\<rparr>"]
      a b c d e
    by simp
qed


section \<open>Status classification\<close>

text \<open>
  C8: every status code of the closed set has one of the nineteen listed integers, is a
  success exactly when that integer is 200, 201, 202 or 204, a client error exactly when it
  lies in [400, 500), and a server error exactly when it lies in [500, 600).
\<close>
theorem status_classification:
  "status_value c \<in> {101, 200, 201, 202, 204, 400, 401, 403, 404, 405, 408, 413, 415, 429,
                      500, 501, 502, 503, 504}
   \<and> is_success c = (status_value c \<in> {200, 201, 202, 204})
   \<and> is_client_error c = (400 \<le> status_value c \<and> status_value c < 500)
   \<and> is_server_error c = (500 \<le> status_value c \<and> status_value c < 600)"
  by (cases c) (simp_all add: is_success_def is_client_error_def is_server_error_def)


section \<open>Default configuration\<close>

text \<open>
  C10: a client constructed with the default configuration has \<open>verify_tls = False\<close>, and
  the TLS context it builds for the transport upgrade has host-name checking switched off
  and certificate verification set to \<open>CERT_NONE\<close>.
\<close>
theorem default_client_insecure:
  "GurtClient_init None =
     Inr \<lparr>config = GurtClientConfig_default,
          ssl_context = \<lparr>minimum_version = TLSv1_3, maximum_version = TLSv1_3,
                         alpn_protocols = [GURT_ALPN], check_hostname = False,
                         verify_mode = CERT_NONE\<rparr>\<rparr>
   \<and> verify_tls GurtClientConfig_default = False"
  by (simp add: GurtClient_init_def create_ssl_context_def create_default_context_def
      set_verify_mode_def GurtClientConfig_default_def)

end
